theory Spec2Isabelle
  imports Main
begin

section \<open>JavaScript values\<close>

text \<open>
  A value of type \<^verbatim>\<open>string | undefined\<close> or \<^verbatim>\<open>string | null\<close> is a \<open>string option\<close>.
  The code tests such values for truthiness only: \<^verbatim>\<open>undefined\<close>, \<^verbatim>\<open>null\<close> and the empty
  string are falsy, every other string is truthy. Strings are byte strings (UTF-8).
\<close>

definition truthy :: "string option \<Rightarrow> bool" where
  "truthy v = (case v of None \<Rightarrow> False | Some s \<Rightarrow> s \<noteq> [])"

text \<open>\<^verbatim>\<open>v || d\<close> where \<open>d\<close> is a string.\<close>

definition or_else :: "string option \<Rightarrow> string \<Rightarrow> string" where
  "or_else v d = (case v of None \<Rightarrow> d | Some s \<Rightarrow> if s = [] then d else s)"

text \<open>A natural number in a template literal: its decimal digits.\<close>

definition digit :: "nat \<Rightarrow> char" where
  "digit d = ''0123456789'' ! d"

function show_nat :: "nat \<Rightarrow> string" where
  "show_nat n = (if n < 10 then [digit n] else show_nat (n div 10) @ [digit (n mod 10)])"
  by pat_completeness auto
termination
  by (relation "measure id") auto

declare show_nat.simps [simp del]

text \<open>\<^verbatim>\<open>xs.join(sep)\<close>\<close>

fun join :: "string \<Rightarrow> string list \<Rightarrow> string" where
  "join sep [] = []"
| "join sep [x] = x"
| "join sep (x # y # ys) = x @ sep @ join sep (y # ys)"

section \<open>Errors (src/types.ts)\<close>

datatype ErrorCode =
    NOT_CONFIGURED
  | UNAUTHORIZED
  | TASK_NOT_FOUND
  | PROJECT_NOT_FOUND
  | INVALID_STATE_TRANSITION
  | API_ERROR
  | NETWORK_ERROR

text \<open>The string value of each member of the enum, as a template literal prints it.\<close>

fun code_text :: "ErrorCode \<Rightarrow> string" where
  "code_text NOT_CONFIGURED = ''NOT_CONFIGURED''"
| "code_text UNAUTHORIZED = ''UNAUTHORIZED''"
| "code_text TASK_NOT_FOUND = ''TASK_NOT_FOUND''"
| "code_text PROJECT_NOT_FOUND = ''PROJECT_NOT_FOUND''"
| "code_text INVALID_STATE_TRANSITION = ''INVALID_STATE_TRANSITION''"
| "code_text API_ERROR = ''API_ERROR''"
| "code_text NETWORK_ERROR = ''NETWORK_ERROR''"

text \<open>
  One issue of a \<^verbatim>\<open>ZodError\<close>: the path of the offending field and the reason.
\<close>

record zod_issue =
  issue_path :: "string list"
  issue_message :: string

text \<open>
  Everything the code throws or catches. \<open>MCPServerError message code httpStatus\<close> is the
  class of src/types.ts; \<open>ZodError\<close> is thrown by a schema's \<^verbatim>\<open>parse\<close>; \<open>Error\<close> is a plain
  \<^verbatim>\<open>Error\<close> with its message; \<open>NonError\<close> is any thrown value that is not an \<^verbatim>\<open>Error\<close>.
\<close>

datatype thrown =
    MCPServerError string ErrorCode "nat option"
  | ZodError "zod_issue list"
  | Error string
  | NonError

text \<open>\<^verbatim>\<open>error instanceof MCPServerError\<close> and then \<^verbatim>\<open>error.code\<close>.\<close>

fun code_of :: "thrown \<Rightarrow> ErrorCode option" where
  "code_of (MCPServerError m c s) = Some c"
| "code_of _ = None"

section \<open>Domain data (src/types.ts, src/api/types.ts)\<close>

datatype TaskStatus = Pending | In_progress | Done

fun status_text :: "TaskStatus \<Rightarrow> string" where
  "status_text Pending = ''pending''"
| "status_text In_progress = ''in-progress''"
| "status_text Done = ''done''"

record spec_ref =
  ref_id :: string
  ref_title :: string
  ref_stage :: string

text \<open>
  \<^verbatim>\<open>TaskDetail extends Task\<close> and differs in the field \<^verbatim>\<open>spec\<close> only: optional with three
  fields in a \<^verbatim>\<open>Task\<close>, present with five fields in a \<^verbatim>\<open>TaskDetail\<close>. The record takes the
  type of that field as a parameter.
\<close>

record spec_detail =
  detail_id :: string
  detail_title :: string
  detail_stage :: string
  requirementsContent :: "string option"
  designContent :: "string option"

record 's task_fields =
  task_id :: string
  taskNumber :: "string option"
  title :: string
  status :: TaskStatus
  files :: "string list"
  implementation :: "string option"
  purposes :: "string option"
  sortOrder :: int
  specId :: string
  createdAt :: string
  updatedAt :: string
  spec :: 's

type_synonym Task = "spec_ref option task_fields"

type_synonym TaskDetail = "spec_detail task_fields"

record TaskCompletion =
  summary :: string
  filesModified :: "string list"
  completion_implementation :: "string option"

text \<open>
  \<^verbatim>\<open>percent\<close> is a JavaScript number; the model covers its integral values.
\<close>

record ProgressUpdate =
  progress_message :: string
  percent :: "int option"

datatype status_filter = Only TaskStatus | All

fun filter_text :: "status_filter \<Rightarrow> string" where
  "filter_text (Only s) = status_text s"
| "filter_text All = ''all''"

record TaskFilters =
  filter_status :: "status_filter option"
  filter_specId :: "string option"

record Project =
  project_id :: string
  project_name :: string
  githubRepositoryFullName :: "string option"
  githubRepositoryUrl :: "string option"
  githubRepositoryDefaultBranch :: "string option"
  project_createdAt :: string
  project_updatedAt :: string

datatype SpecStage = Requirements | Design | Tasks

fun stage_text :: "SpecStage \<Rightarrow> string" where
  "stage_text Requirements = ''requirements''"
| "stage_text Design = ''design''"
| "stage_text Tasks = ''tasks''"

record task_counts =
  count_pending :: nat
  count_inProgress :: nat
  count_done :: nat
  count_total :: nat

record Spec =
  spec_id :: string
  spec_title :: string
  stage :: SpecStage
  taskCounts :: task_counts
  spec_createdAt :: string
  spec_updatedAt :: string

record User =
  user_id :: string
  email :: string
  user_name :: string

section \<open>The network (fetch) and the trace of effects\<close>

text \<open>
  The body of an error response as the code reads it: \<^verbatim>\<open>errorData\<close> is declared
  \<^verbatim>\<open>Record<string, unknown>\<close> and three of its properties are read, each declared a
  string by \<^verbatim>\<open>ErrorResponse\<close>. An absent property is \<open>None\<close>. Reading a property of a JSON
  value that is a number, a string, a boolean or an array gives \<^verbatim>\<open>undefined\<close>, as for a record
  without that property.
\<close>

record error_data =
  data_message :: "string option"
  data_error :: "string option"
  data_code :: "string option"

text \<open>The empty object \<^verbatim>\<open>{}\<close> that replaces a body that is not JSON.\<close>

definition empty_object :: error_data where
  "empty_object = \<lparr>data_message = None, data_error = None, data_code = None\<rparr>"

text \<open>What a rejected promise of the platform carries: an \<^verbatim>\<open>Error\<close> with its message,
  or some other value.\<close>

datatype rejection = Rejected_Error string | Rejected_value

text \<open>
  The resolved value of \<^verbatim>\<open>response.json()\<close> read as a record: the JSON value \<^verbatim>\<open>null\<close>, of
  which no property can be read, or the three properties.
\<close>

datatype record_reading = Null_value | Record error_data

text \<open>
  \<^verbatim>\<open>response.json()\<close> either rejects or resolves. The code reads the resolved value as
  \<^verbatim>\<open>Record<string, unknown>\<close> on the error path and casts it to the type \<^verbatim>\<open>T\<close> of the call
  on the success path; the model carries both readings, and takes the second at the type
  \<^verbatim>\<open>T\<close> as the cast does.
\<close>

datatype 'a json = Json_rejects rejection | Json_resolves record_reading 'a

text \<open>\<^verbatim>\<open>fetch\<close> rejects (no response at all) or resolves to a response with a status.\<close>

datatype 'a fetch_result = Rejects rejection | Response nat "'a json"

text \<open>\<^verbatim>\<open>response.ok\<close>: the status is in the range 200-299.\<close>

definition ok :: "nat \<Rightarrow> bool" where
  "ok st = (200 \<le> st \<and> st \<le> 299)"

datatype req_body = Completion_body TaskCompletion | Progress_body ProgressUpdate

text \<open>One call of \<^verbatim>\<open>fetch\<close>: the URL, the method, the two headers and the value handed to
  \<^verbatim>\<open>JSON.stringify\<close> for the body.\<close>

record http_call =
  call_url :: string
  call_method :: string
  call_headers :: "(string \<times> string) list"
  call_body :: "req_body option"

text \<open>The effects of the code on the outside world, in order.\<close>

datatype event = Fetch http_call | ReadFile "string list"

text \<open>The answer of the network to a call may depend on everything that happened before.\<close>

type_synonym 'a replies = "event list \<Rightarrow> http_call \<Rightarrow> 'a fetch_result"

text \<open>
  The remote backend, one reply function per response type. Each yields the property of the response
  object that the client returns (\<^verbatim>\<open>response.tasks\<close>, \<^verbatim>\<open>response.project\<close>, ...).
\<close>

record backend =
  me_reply :: "User replies"
  tasks_reply :: "Task list replies"
  task_reply :: "TaskDetail replies"
  start_reply :: "Task replies"
  complete_reply :: "Task replies"
  progress_reply :: "bool replies"
  projects_reply :: "Project list replies"
  specs_reply :: "Spec list replies"
  by_repo_reply :: "Project replies"

section \<open>The API client (src/api/client.ts)\<close>

record Config =
  config_apiUrl :: string
  config_apiKey :: string
  config_projectId :: "string option"

record TaskApiClient =
  apiUrl :: string
  apiKey :: string
  projectId :: "string option"

definition new_TaskApiClient :: "Config \<Rightarrow> TaskApiClient" where
  "new_TaskApiClient config =
     \<lparr>apiUrl = config_apiUrl config, apiKey = config_apiKey config,
      projectId = config_projectId config\<rparr>"

text \<open>A client together with the trace of effects so far: what a method reads and changes.\<close>

record world =
  client :: TaskApiClient
  trace :: "event list"

definition setProjectId :: "string \<Rightarrow> world \<Rightarrow> world" where
  "setProjectId p w = w\<lparr>client := (client w)\<lparr>projectId := Some p\<rparr>\<rparr>"

definition getProjectId :: "world \<Rightarrow> string option" where
  "getProjectId w = projectId (client w)"

fun mapErrorCode :: "string \<Rightarrow> nat \<Rightarrow> ErrorCode" where
  "mapErrorCode apiCode st =
     (if st = 401 \<or> st = 403 then UNAUTHORIZED
      else if apiCode = ''TASK_NOT_FOUND'' then TASK_NOT_FOUND
      else if apiCode = ''PROJECT_NOT_FOUND'' then PROJECT_NOT_FOUND
      else if apiCode = ''INVALID_STATE_TRANSITION'' \<or>
              apiCode = ''TASK_ALREADY_IN_PROGRESS'' \<or>
              apiCode = ''TASK_NOT_STARTED'' \<or>
              apiCode = ''TASK_ALREADY_COMPLETED'' then INVALID_STATE_TRANSITION
      else API_ERROR)"

text \<open>The \<^verbatim>\<open>catch\<close> of \<^verbatim>\<open>request\<close> for a value that is not an \<^verbatim>\<open>MCPServerError\<close>.\<close>

fun network_error :: "rejection \<Rightarrow> thrown" where
  "network_error (Rejected_Error m) = MCPServerError (''Network error: '' @ m) NETWORK_ERROR None"
| "network_error Rejected_value = MCPServerError ''Network error: Unknown error'' NETWORK_ERROR None"

text \<open>The call that \<^verbatim>\<open>request\<close> hands to \<^verbatim>\<open>fetch\<close>: the URL under the versioned prefix, the
  method, the content type and the API key header, the body if there is one.\<close>

definition make_call :: "TaskApiClient \<Rightarrow> string \<Rightarrow> string \<Rightarrow> req_body option \<Rightarrow> http_call" where
  "make_call this method path body =
     \<lparr>call_url = apiUrl this @ ''/api/v1'' @ path,
      call_method = method,
      call_headers = [(''Content-Type'', ''application/json''), (''X-API-Key'', apiKey this)],
      call_body = body\<rparr>"

text \<open>\<^verbatim>\<open>await response.json().catch(() => ({}))\<close>\<close>

fun errorData :: "'a json \<Rightarrow> record_reading" where
  "errorData (Json_rejects r) = Record empty_object"
| "errorData (Json_resolves d v) = d"

text \<open>
  What \<^verbatim>\<open>errorData.message\<close> throws when \<^verbatim>\<open>errorData\<close> is \<^verbatim>\<open>null\<close>: a \<^verbatim>\<open>TypeError\<close>, with the
  message of the engine. It is thrown inside the \<^verbatim>\<open>try\<close> of \<^verbatim>\<open>request\<close>.
\<close>

definition null_property_read :: rejection where
  "null_property_read =
     Rejected_Error (''Cannot read properties of null (reading '' @ [CHR 0x27] @ ''message'' @
       [CHR 0x27] @ '')'')"

definition request ::
  "'a replies \<Rightarrow> string \<Rightarrow> string \<Rightarrow> req_body option \<Rightarrow> world \<Rightarrow> (thrown + 'a) \<times> world" where
  "request fetch method path body w =
     (let call = make_call (client w) method path body;
          w' = w\<lparr>trace := trace w @ [Fetch call]\<rparr>
      in case fetch (trace w) call of
           Rejects r \<Rightarrow> (Inl (network_error r), w')
         | Response st j \<Rightarrow>
             if \<not> ok st then
               (case errorData j of
                  Null_value \<Rightarrow> (Inl (network_error null_property_read), w')
                | Record d \<Rightarrow>
                    (let message = or_else (data_message d)
                                     (or_else (data_error d) (''HTTP '' @ show_nat st));
                         code = or_else (data_code d) ''API_ERROR''
                     in (Inl (MCPServerError message (mapErrorCode code st) (Some st)), w')))
             else
               (case j of
                  Json_rejects r \<Rightarrow> (Inl (network_error r), w')
                | Json_resolves d v \<Rightarrow> (Inr v, w')))"

definition getMe :: "backend \<Rightarrow> world \<Rightarrow> (thrown + User) \<times> world" where
  "getMe b w = request (me_reply b) ''GET'' ''/me'' None w"

text \<open>
  \<^verbatim>\<open>URLSearchParams.toString()\<close>: the application/x-www-form-urlencoded serialisation.
  Letters, digits and \<^verbatim>\<open>* - . _\<close> stay, a space becomes \<^verbatim>\<open>+\<close>, any other byte is
  percent-encoded.
\<close>

definition is_alnum :: "char \<Rightarrow> bool" where
  "is_alnum c = (let n = (of_char c :: nat) in
     (48 \<le> n \<and> n \<le> 57) \<or> (65 \<le> n \<and> n \<le> 90) \<or> (97 \<le> n \<and> n \<le> 122))"

definition hex_digit :: "nat \<Rightarrow> char" where
  "hex_digit d = ''0123456789ABCDEF'' ! d"

definition percent_encode :: "char \<Rightarrow> string" where
  "percent_encode c = (let n = (of_char c :: nat) in [CHR ''%'', hex_digit (n div 16), hex_digit (n mod 16)])"

definition form_urlencode :: "string \<Rightarrow> string" where
  "form_urlencode s = concat (map (\<lambda>c.
     if is_alnum c \<or> c \<in> set ''*-._'' then [c]
     else if c = CHR '' '' then ''+''
     else percent_encode c) s)"

definition params_toString :: "(string \<times> string) list \<Rightarrow> string" where
  "params_toString ps = join ''&'' (map (\<lambda>(k, v). form_urlencode k @ ''='' @ form_urlencode v) ps)"

text \<open>\<^verbatim>\<open>encodeURIComponent\<close>: letters, digits and \<^verbatim>\<open>- _ . ! ~ * ' ( )\<close> stay.\<close>

definition encodeURIComponent :: "string \<Rightarrow> string" where
  "encodeURIComponent s = concat (map (\<lambda>c.
     if is_alnum c \<or> c \<in> set (''-_.!~*()'' @ [CHR 0x27]) then [c] else percent_encode c) s)"

definition project_required :: thrown where
  "project_required =
     MCPServerError ''Project ID is required. Set SPECMANAGER_PROJECT_ID or call setProjectId()''
       NOT_CONFIGURED None"

definition listTasks :: "backend \<Rightarrow> TaskFilters option \<Rightarrow> world \<Rightarrow> (thrown + Task list) \<times> world" where
  "listTasks b filters w =
     (case projectId (client w) of
        None \<Rightarrow> (Inl project_required, w)
      | Some p \<Rightarrow>
          if p = [] then (Inl project_required, w)
          else
            (let st = (case filters of
                         None \<Rightarrow> ''all''
                       | Some f \<Rightarrow> (case filter_status f of None \<Rightarrow> ''all'' | Some s \<Rightarrow> filter_text s));
                 params = [(''status'', st)];
                 params = (case filters of
                             None \<Rightarrow> params
                           | Some f \<Rightarrow> if truthy (filter_specId f)
                                       then params @ [(''specId'', or_else (filter_specId f) [])]
                                       else params)
             in request (tasks_reply b) ''GET''
                  (''/projects/'' @ p @ ''/tasks?'' @ params_toString params) None w))"

definition getTask :: "backend \<Rightarrow> string \<Rightarrow> world \<Rightarrow> (thrown + TaskDetail) \<times> world" where
  "getTask b taskId w = request (task_reply b) ''GET'' (''/tasks/'' @ taskId) None w"

definition startTask :: "backend \<Rightarrow> string \<Rightarrow> world \<Rightarrow> (thrown + Task) \<times> world" where
  "startTask b taskId w = request (start_reply b) ''PATCH'' (''/tasks/'' @ taskId @ ''/start'') None w"

definition completeTask ::
  "backend \<Rightarrow> string \<Rightarrow> TaskCompletion \<Rightarrow> world \<Rightarrow> (thrown + Task) \<times> world" where
  "completeTask b taskId completion w =
     request (complete_reply b) ''PATCH'' (''/tasks/'' @ taskId @ ''/complete'')
       (Some (Completion_body completion)) w"

definition reportProgress ::
  "backend \<Rightarrow> string \<Rightarrow> ProgressUpdate \<Rightarrow> world \<Rightarrow> (thrown + unit) \<times> world" where
  "reportProgress b taskId progress w =
     (case request (progress_reply b) ''POST'' (''/tasks/'' @ taskId @ ''/progress'')
             (Some (Progress_body progress)) w of
        (Inl e, w') \<Rightarrow> (Inl e, w')
      | (Inr r, w') \<Rightarrow> (Inr (), w'))"

definition listProjects :: "backend \<Rightarrow> world \<Rightarrow> (thrown + Project list) \<times> world" where
  "listProjects b w = request (projects_reply b) ''GET'' ''/projects'' None w"

definition listSpecs :: "backend \<Rightarrow> world \<Rightarrow> (thrown + Spec list) \<times> world" where
  "listSpecs b w =
     (case projectId (client w) of
        None \<Rightarrow> (Inl project_required, w)
      | Some p \<Rightarrow>
          if p = [] then (Inl project_required, w)
          else request (specs_reply b) ''GET'' (''/projects/'' @ p @ ''/specs'') None w)"

text \<open>
  \<^verbatim>\<open>getProjectByRepo\<close>: the \<^verbatim>\<open>catch\<close> turns an \<^verbatim>\<open>MCPServerError\<close> whose code is
  \<^verbatim>\<open>PROJECT_NOT_FOUND\<close> into \<^verbatim>\<open>null\<close> and throws every other error again.
\<close>

definition getProjectByRepo ::
  "backend \<Rightarrow> string \<Rightarrow> world \<Rightarrow> (thrown + Project option) \<times> world" where
  "getProjectByRepo b repoFullName w =
     (case request (by_repo_reply b) ''GET''
             (''/projects/by-repo?repo='' @ encodeURIComponent repoFullName) None w of
        (Inr project, w') \<Rightarrow> (Inr (Some project), w')
      | (Inl error, w') \<Rightarrow>
          if code_of error = Some PROJECT_NOT_FOUND then (Inr None, w') else (Inl error, w'))"

section \<open>Git remote URLs (src/utils/git.ts)\<close>

subsection \<open>The two regular expressions, run as JavaScript runs them\<close>

text \<open>
  The patterns of \<^verbatim>\<open>parseGitRemoteUrl\<close> use literal characters, the class \<^verbatim>\<open>[^/]\<close>, the
  quantifiers \<^verbatim>\<open>?\<close>, \<^verbatim>\<open>+\<close> (greedy) and \<^verbatim>\<open>+?\<close> (lazy) on a single character, one capture
  group, the optional non-capturing group \<^verbatim>\<open>(?:\.git)?\<close> and the anchor \<^verbatim>\<open>$\<close>.
\<close>

datatype atom = Lit char | Not_char char

fun atom_match :: "atom \<Rightarrow> char \<Rightarrow> bool" where
  "atom_match (Lit a) c = (c = a)"
| "atom_match (Not_char a) c = (c \<noteq> a)"

text \<open>
  \<open>Star\<close> and \<open>Lazy_star\<close> do not occur in the patterns: they are what is left of \<open>Plus\<close> and
  \<open>Lazy_plus\<close> after the first repetition.
\<close>

datatype item =
    One atom
  | Opt atom
  | Plus atom
  | Star atom
  | Lazy_plus atom
  | Lazy_star atom
  | Opt_seq string
  | Open_group
  | Close_group
  | End_anchor

text \<open>
  The backtracking matcher. \<open>run re s i g\<close> matches the pattern \<open>re\<close> against the rest \<open>s\<close> of
  the input, which starts at index \<open>i\<close>; \<open>g\<close> is the start and the end index of the capture
  group so far. A greedy quantifier tries one more repetition first and gives it back when the
  rest of the pattern fails; a lazy one tries the rest of the pattern first. \<^verbatim>\<open>$\<close> (no
  \<^verbatim>\<open>m\<close> flag) matches at the end of the input only.
\<close>

fun run :: "item list \<Rightarrow> string \<Rightarrow> nat \<Rightarrow> nat \<times> nat \<Rightarrow> (nat \<times> nat) option" where
  "run [] s i g = Some g"
| "run (One a # re) s i g =
     (case s of [] \<Rightarrow> None
      | c # cs \<Rightarrow> if atom_match a c then run re cs (Suc i) g else None)"
| "run (Opt a # re) s i g =
     (case s of [] \<Rightarrow> run re s i g
      | c # cs \<Rightarrow>
          if atom_match a c
          then (case run re cs (Suc i) g of Some r \<Rightarrow> Some r | None \<Rightarrow> run re s i g)
          else run re s i g)"
| "run (Plus a # re) s i g =
     (case s of [] \<Rightarrow> None
      | c # cs \<Rightarrow> if atom_match a c then run (Star a # re) cs (Suc i) g else None)"
| "run (Star a # re) s i g =
     (case s of [] \<Rightarrow> run re s i g
      | c # cs \<Rightarrow>
          if atom_match a c
          then (case run (Star a # re) cs (Suc i) g of Some r \<Rightarrow> Some r | None \<Rightarrow> run re s i g)
          else run re s i g)"
| "run (Lazy_plus a # re) s i g =
     (case s of [] \<Rightarrow> None
      | c # cs \<Rightarrow> if atom_match a c then run (Lazy_star a # re) cs (Suc i) g else None)"
| "run (Lazy_star a # re) s i g =
     (case run re s i g of
        Some r \<Rightarrow> Some r
      | None \<Rightarrow>
          (case s of [] \<Rightarrow> None
           | c # cs \<Rightarrow> if atom_match a c then run (Lazy_star a # re) cs (Suc i) g else None))"
| "run (Opt_seq l # re) s i g =
     (if take (length l) s = l
      then (case run re (drop (length l) s) (i + length l) g of
              Some r \<Rightarrow> Some r
            | None \<Rightarrow> run re s i g)
      else run re s i g)"
| "run (Open_group # re) s i g = run re s i (i, snd g)"
| "run (Close_group # re) s i g = run re s i (fst g, i)"
| "run (End_anchor # re) s i g = (if s = [] then run re s i g else None)"

text \<open>
  \<^verbatim>\<open>url.match(re)\<close> for a pattern without the \<^verbatim>\<open>g\<close> flag: the first start index, from the
  left, at which the pattern matches.
\<close>

fun search :: "item list \<Rightarrow> string \<Rightarrow> nat \<Rightarrow> (nat \<times> nat) option" where
  "search re s i =
     (case run re s i (0, 0) of
        Some g \<Rightarrow> Some g
      | None \<Rightarrow> (case s of [] \<Rightarrow> None | c # cs \<Rightarrow> search re cs (Suc i)))"

declare search.simps [simp del]

text \<open>\<^verbatim>\<open>url.match(re)\<close> followed by \<^verbatim>\<open>[1]\<close>: the text of the capture group, or no match.\<close>

definition match_group :: "item list \<Rightarrow> string \<Rightarrow> string option" where
  "match_group re url =
     (case search re url 0 of
        None \<Rightarrow> None
      | Some (b, e) \<Rightarrow> Some (take (e - b) (drop b url)))"

definition lits :: "string \<Rightarrow> item list" where
  "lits s = map (\<lambda>c. One (Lit c)) s"

text \<open>The part both patterns share: \<^verbatim>\<open>([^/]+\/[^/]+?)(?:\.git)?$\<close>\<close>

definition owner_repo :: "item list" where
  "owner_repo =
     [Open_group, Plus (Not_char CHR ''/''), One (Lit CHR ''/''), Lazy_plus (Not_char CHR ''/''),
      Close_group, Opt_seq ''.git'', End_anchor]"

text \<open>\<^verbatim>\<open>/https?:\/\/github\.com\/([^/]+\/[^/]+?)(?:\.git)?$/\<close>\<close>

definition https_pattern :: "item list" where
  "https_pattern = lits ''http'' @ [Opt (Lit CHR ''s'')] @ lits ''://github.com/'' @ owner_repo"

text \<open>\<^verbatim>\<open>/git@github\.com:([^/]+\/[^/]+?)(?:\.git)?$/\<close>\<close>

definition ssh_pattern :: "item list" where
  "ssh_pattern = lits ''git@github.com:'' @ owner_repo"

definition parseGitRemoteUrl :: "string \<Rightarrow> string option" where
  "parseGitRemoteUrl url =
     (case match_group https_pattern url of
        Some m \<Rightarrow> Some m
      | None \<Rightarrow>
          (case match_group ssh_pattern url of
             Some m \<Rightarrow> Some m
           | None \<Rightarrow> None))"

subsection \<open>What the two patterns accept, read off the patterns\<close>

text \<open>
  \<open>accepts re s\<close>: some prefix of \<open>s\<close> is matched by the pattern \<open>re\<close>, with no reference to the
  order in which the matcher tries the alternatives.
\<close>

fun accepts :: "item list \<Rightarrow> string \<Rightarrow> bool" where
  "accepts [] s = True"
| "accepts (One a # re) s = (\<exists>c cs. s = c # cs \<and> atom_match a c \<and> accepts re cs)"
| "accepts (Opt a # re) s = ((\<exists>c cs. s = c # cs \<and> atom_match a c \<and> accepts re cs) \<or> accepts re s)"
| "accepts (Plus a # re) s =
     (\<exists>us vs. s = us @ vs \<and> us \<noteq> [] \<and> list_all (atom_match a) us \<and> accepts re vs)"
| "accepts (Star a # re) s =
     (\<exists>us vs. s = us @ vs \<and> list_all (atom_match a) us \<and> accepts re vs)"
| "accepts (Lazy_plus a # re) s =
     (\<exists>us vs. s = us @ vs \<and> us \<noteq> [] \<and> list_all (atom_match a) us \<and> accepts re vs)"
| "accepts (Lazy_star a # re) s =
     (\<exists>us vs. s = us @ vs \<and> list_all (atom_match a) us \<and> accepts re vs)"
| "accepts (Opt_seq l # re) s = ((\<exists>vs. s = l @ vs \<and> accepts re vs) \<or> accepts re s)"
| "accepts (Open_group # re) s = accepts re s"
| "accepts (Close_group # re) s = accepts re s"
| "accepts (End_anchor # re) s = (s = [] \<and> accepts re s)"

text \<open>\<open>many P Q s\<close>: \<open>s\<close> is some characters that satisfy \<open>P\<close> followed by a rest that satisfies \<open>Q\<close>.\<close>

fun many :: "(char \<Rightarrow> bool) \<Rightarrow> (string \<Rightarrow> bool) \<Rightarrow> string \<Rightarrow> bool" where
  "many P Q [] = Q []"
| "many P Q (c # cs) = (Q (c # cs) \<or> (P c \<and> many P Q cs))"

text \<open>
  An owner and a repository name, neither empty nor containing a slash, with or without
  \<^verbatim>\<open>.git\<close>, and nothing behind.
\<close>

definition owner_repo_shape :: "string \<Rightarrow> bool" where
  "owner_repo_shape s =
     (\<exists>owner repo suffix.
        s = owner @ ''/'' @ repo @ suffix \<and>
        owner \<noteq> [] \<and> CHR ''/'' \<notin> set owner \<and>
        repo \<noteq> [] \<and> CHR ''/'' \<notin> set repo \<and>
        (suffix = [] \<or> suffix = ''.git''))"

text \<open>
  What the two patterns accept, in words: the URL ends in a text of the form
  \<^verbatim>\<open>http://github.com/owner/repo\<close> or \<^verbatim>\<open>https://github.com/owner/repo\<close>, or of the form
  \<^verbatim>\<open>git@github.com:owner/repo\<close>. The patterns are not anchored at the start, so any text may
  precede, and the \<^verbatim>\<open>s\<close> of the scheme is optional.
\<close>

definition ends_in_https_form :: "string \<Rightarrow> bool" where
  "ends_in_https_form url =
     (\<exists>pre rest.
        (url = pre @ ''http://github.com/'' @ rest \<or> url = pre @ ''https://github.com/'' @ rest) \<and>
        owner_repo_shape rest)"

definition ends_in_ssh_form :: "string \<Rightarrow> bool" where
  "ends_in_ssh_form url = (\<exists>pre rest. url = pre @ ''git@github.com:'' @ rest \<and> owner_repo_shape rest)"

subsection \<open>The two shapes of a URL, as the specification words them\<close>

text \<open>
  The specification accepts two shapes of a URL, the HTTPS form and the SSH form of a URL of the
  hosting service; the comment of \<^verbatim>\<open>parseGitRemoteUrl\<close> lists them:
  \<^verbatim>\<open>https://github.com/owner/repo.git\<close>, \<^verbatim>\<open>https://github.com/owner/repo\<close>,
  \<^verbatim>\<open>git@github.com:owner/repo.git\<close> and \<^verbatim>\<open>git@github.com:owner/repo\<close>. These two definitions
  follow those words, not the patterns: the whole URL has the form, and the scheme is
  \<^verbatim>\<open>https\<close>.
\<close>

definition https_shape :: "string \<Rightarrow> bool" where
  "https_shape url = (\<exists>rest. url = ''https://github.com/'' @ rest \<and> owner_repo_shape rest)"

definition ssh_shape :: "string \<Rightarrow> bool" where
  "ssh_shape url = (\<exists>rest. url = ''git@github.com:'' @ rest \<and> owner_repo_shape rest)"

subsection \<open>Reading the remote of a working directory\<close>

text \<open>
  The file system: the answer of \<^verbatim>\<open>readFile\<close> to a path given by the segments handed to
  \<^verbatim>\<open>join\<close>, \<open>None\<close> when the promise rejects (no such file, no permission).
\<close>

type_synonym files = "event list \<Rightarrow> string list \<Rightarrow> string option"

text \<open>\<^verbatim>\<open>trim\<close> strips white space from both ends; the model knows the ASCII white space.\<close>

definition is_space :: "char \<Rightarrow> bool" where
  "is_space c = (c \<in> set [CHR 0x09, CHR 0x0A, CHR 0x0B, CHR 0x0C, CHR 0x0D, CHR 0x20])"

definition trim :: "string \<Rightarrow> string" where
  "trim s = rev (dropWhile is_space (rev (dropWhile is_space s)))"

text \<open>\<^verbatim>\<open>s.startsWith(p)\<close>\<close>

definition startsWith :: "string \<Rightarrow> string \<Rightarrow> bool" where
  "startsWith s p = (take (length p) s = p)"

text \<open>\<^verbatim>\<open>s.split('\n')\<close>: the pieces between the line feeds, at least one.\<close>

fun split_lines :: "string \<Rightarrow> string list" where
  "split_lines [] = [[]]"
| "split_lines (c # cs) =
     (if c = CHR 0x0A then [] # split_lines cs
      else (case split_lines cs of l # ls \<Rightarrow> (c # l) # ls | [] \<Rightarrow> [[c]]))"

text \<open>The loop of \<^verbatim>\<open>getGitRemoteUrl\<close> over the lines, with its variable \<^verbatim>\<open>inOriginSection\<close>.\<close>

fun scan_config :: "string list \<Rightarrow> bool \<Rightarrow> string option" where
  "scan_config [] inOriginSection = None"
| "scan_config (line # rest) inOriginSection =
     (let trimmed = trim line in
      if startsWith trimmed ''[''
      then scan_config rest (trimmed = ''[remote '' @ [CHR 0x22] @ ''origin'' @ [CHR 0x22] @ '']'')
      else if inOriginSection \<and> startsWith trimmed ''url = ''
      then Some (trim (drop 6 trimmed))
      else scan_config rest inOriginSection)"

definition getGitRemoteUrl :: "files \<Rightarrow> string \<Rightarrow> world \<Rightarrow> string option \<times> world" where
  "getGitRemoteUrl fs workingDir w =
     (let gitConfigPath = [workingDir, ''.git'', ''config''];
          w' = w\<lparr>trace := trace w @ [ReadFile gitConfigPath]\<rparr>
      in case fs (trace w) gitConfigPath of
           None \<Rightarrow> (None, w')
         | Some configContent \<Rightarrow> (scan_config (split_lines configContent) False, w'))"

definition getGitHubRepoFromWorkingDir :: "files \<Rightarrow> string \<Rightarrow> world \<Rightarrow> string option \<times> world" where
  "getGitHubRepoFromWorkingDir fs workingDir w =
     (case getGitRemoteUrl fs workingDir w of
        (remoteUrl, w') \<Rightarrow>
          if \<not> truthy remoteUrl then (None, w')
          else (parseGitRemoteUrl (or_else remoteUrl []), w'))"

section \<open>The tools (src/tools)\<close>

text \<open>Characters that a string literal of the theory cannot hold.\<close>

definition newline :: string where
  "newline = [CHR 0x0A]"

definition dquote :: string where
  "dquote = [CHR 0x22]"

definition squote :: string where
  "squote = [CHR 0x27]"

text \<open>The three texts with which list-tasks and list-specs return early.\<close>

definition no_project_found :: "string \<Rightarrow> string" where
  "no_project_found repoFullName =
     ''No project found linked to repository: '' @ repoFullName @ newline @ newline @
     ''Use '' @ squote @ ''list-projects'' @ squote @
     '' to see your available projects, or link this repository'' @ newline @
     ''to a project at specmanager.ai.''"

definition could_not_detect :: "string \<Rightarrow> string" where
  "could_not_detect workingDir =
     ''Could not detect git repository from: '' @ workingDir @ newline @ newline @
     ''Make sure the directory contains a .git folder with a remote origin configured.'' @ newline @
     ''Alternatively, provide a projectId directly.''"

definition no_project_specified :: string where
  "no_project_specified =
     ''No project specified. Please provide either:'' @ newline @
     ''- projectId: The project UUID'' @ newline @
     ''- workingDir: Path to a git repository linked to your project'' @ newline @ newline @
     ''Use '' @ squote @ ''list-projects'' @ squote @ '' to see your available projects.''"

subsection \<open>list-tasks\<close>

text \<open>The input after validation: \<^verbatim>\<open>status\<close> has its default filled in.\<close>

record ListTasksInput =
  tasks_projectId :: "string option"
  tasks_workingDir :: "string option"
  tasks_status :: status_filter
  tasks_specId :: "string option"

definition task_lines :: "Task \<Rightarrow> string list" where
  "task_lines task =
     (let number = (if truthy (taskNumber task) then ''['' @ or_else (taskNumber task) [] @ ''] '' else []);
          specTitle = (case spec task of
                         None \<Rightarrow> []
                       | Some sp \<Rightarrow> if ref_title sp \<noteq> [] then '' ('' @ ref_title sp @ '')'' else []);
          files = (if length (files task) > 0
                   then newline @ ''   Files: '' @ join '', '' (files task) else [])
      in [''- '' @ number @ title task @ specTitle,
          ''   ID: '' @ task_id task,
          ''   Status: '' @ status_text (status task) @ files,
          []])"

text \<open>The text that list-tasks returns for the tasks the backend sent.\<close>

definition tasks_text :: "ListTasksInput \<Rightarrow> string option \<Rightarrow> bool \<Rightarrow> Task list \<Rightarrow> string" where
  "tasks_text input projectName detectedFromRepo tasks =
     (if length tasks = 0 then
        (let statusText = (if tasks_status input = All then [] else filter_text (tasks_status input) @ '' '');
             projectText = (if truthy projectName
                            then '' for project '' @ dquote @ or_else projectName [] @ dquote else [])
         in ''No '' @ statusText @ ''tasks found'' @ projectText @ ''.'')
      else
        (let lines = (if detectedFromRepo \<and> truthy projectName
                      then [''**Project:** '' @ or_else projectName [] @ '' (auto-detected from git)'', []]
                      else []);
             lines = lines @ [''Found '' @ show_nat (length tasks) @ '' task(s):'', []];
             lines = lines @ concat (map task_lines tasks)
         in join newline lines))"

text \<open>
  \<^verbatim>\<open>handleListTasks\<close>.
  The first \<open>case\<close> is over the outcome of the block that detects the project from the
  working directory: an error thrown by \<open>getProjectByRepo\<close>, an early return with a text, or
  the values of \<^verbatim>\<open>projectId\<close>, \<^verbatim>\<open>projectName\<close> and \<^verbatim>\<open>detectedFromRepo\<close> after it
  (\<open>projectId_0\<close>; \<open>projectId_1\<close> is \<^verbatim>\<open>projectId\<close> after the fall-back to the scope of the
  client). Then come the \<^verbatim>\<open>try\<close> block and the \<^verbatim>\<open>finally\<close> block.
\<close>

definition handleListTasks ::
  "backend \<Rightarrow> files \<Rightarrow> ListTasksInput \<Rightarrow> world \<Rightarrow> (thrown + string) \<times> world" where
  "handleListTasks b fs input w =
     (case
        (if \<not> truthy (tasks_projectId input) \<and> truthy (tasks_workingDir input) then
           (case getGitHubRepoFromWorkingDir fs (or_else (tasks_workingDir input) []) w of
              (repoFullName, w1) \<Rightarrow>
                if truthy repoFullName then
                  (case getProjectByRepo b (or_else repoFullName []) w1 of
                     (Inl e, w2) \<Rightarrow> (Inl e, w2)
                   | (Inr None, w2) \<Rightarrow> (Inr (Inl (no_project_found (or_else repoFullName []))), w2)
                   | (Inr (Some project), w2) \<Rightarrow>
                       (Inr (Inr (Some (project_id project), Some (project_name project), True)), w2))
                else (Inr (Inl (could_not_detect (or_else (tasks_workingDir input) []))), w1))
         else (Inr (Inr (tasks_projectId input, None, False)), w))
      of
        (Inl e, w') \<Rightarrow> (Inl e, w')
      | (Inr (Inl text), w') \<Rightarrow> (Inr text, w')
      | (Inr (Inr (projectId_0, projectName, detectedFromRepo)), w') \<Rightarrow>
          (let projectId_1 = (if \<not> truthy projectId_0 then getProjectId w' else projectId_0) in
           if \<not> truthy projectId_1 then (Inr no_project_specified, w')
           else
             (let originalProjectId = getProjectId w';
                  w1 = setProjectId (or_else projectId_1 []) w';
                  (result, w2) =
                    (case listTasks b (Some \<lparr>filter_status = Some (tasks_status input),
                                               filter_specId = tasks_specId input\<rparr>) w1 of
                       (Inl e, w2) \<Rightarrow> (Inl e, w2)
                     | (Inr tasks, w2) \<Rightarrow>
                         (Inr (tasks_text input projectName detectedFromRepo tasks),
                          setProjectId (or_else originalProjectId []) w2))
              in (result,
                  if truthy originalProjectId
                  then setProjectId (or_else originalProjectId []) w2
                  else w2))))"

subsection \<open>list-specs\<close>

record ListSpecsInput =
  specs_projectId :: "string option"
  specs_workingDir :: "string option"
  includeCompleted :: bool

definition spec_lines :: "Spec \<Rightarrow> string list" where
  "spec_lines sp =
     (let counts = taskCounts sp;
          isComplete = (count_pending counts = 0 \<and> count_inProgress counts = 0);
          statusIcon = (if isComplete then ''[DONE]'' else [])
      in [''- '' @ spec_title sp @ '' '' @ statusIcon,
          ''   ID: '' @ spec_id sp,
          ''   Stage: '' @ stage_text (stage sp),
          ''   Tasks: '' @ show_nat (count_pending counts) @ '' pending, '' @
             show_nat (count_inProgress counts) @ '' in-progress, '' @
             show_nat (count_done counts) @ '' done ('' @ show_nat (count_total counts) @ '' total)'',
          []])"

definition specs_text :: "ListSpecsInput \<Rightarrow> string option \<Rightarrow> bool \<Rightarrow> Spec list \<Rightarrow> string" where
  "specs_text input projectName detectedFromRepo specs =
     (let filteredSpecs =
            (if includeCompleted input then specs
             else filter (\<lambda>s. count_pending (taskCounts s) > 0 \<or> count_inProgress (taskCounts s) > 0) specs)
      in if length filteredSpecs = 0 then
           (let projectText = (if truthy projectName
                               then '' for project '' @ dquote @ or_else projectName [] @ dquote else [])
            in if length specs > 0 \<and> \<not> includeCompleted input
               then ''All specs'' @ projectText @ '' are completed! Use includeCompleted=true to see them.''
               else ''No specs found'' @ projectText @ ''.'')
         else
           (let lines = (if detectedFromRepo \<and> truthy projectName
                         then [''**Project:** '' @ or_else projectName [] @ '' (auto-detected from git)'', []]
                         else []);
                lines = lines @ [''Found '' @ show_nat (length filteredSpecs) @ '' spec(s):'', []];
                lines = lines @ concat (map spec_lines filteredSpecs)
            in join newline lines))"

definition handleListSpecs ::
  "backend \<Rightarrow> files \<Rightarrow> ListSpecsInput \<Rightarrow> world \<Rightarrow> (thrown + string) \<times> world" where
  "handleListSpecs b fs input w =
     (case
        (if \<not> truthy (specs_projectId input) \<and> truthy (specs_workingDir input) then
           (case getGitHubRepoFromWorkingDir fs (or_else (specs_workingDir input) []) w of
              (repoFullName, w1) \<Rightarrow>
                if truthy repoFullName then
                  (case getProjectByRepo b (or_else repoFullName []) w1 of
                     (Inl e, w2) \<Rightarrow> (Inl e, w2)
                   | (Inr None, w2) \<Rightarrow> (Inr (Inl (no_project_found (or_else repoFullName []))), w2)
                   | (Inr (Some project), w2) \<Rightarrow>
                       (Inr (Inr (Some (project_id project), Some (project_name project), True)), w2))
                else (Inr (Inl (could_not_detect (or_else (specs_workingDir input) []))), w1))
         else (Inr (Inr (specs_projectId input, None, False)), w))
      of
        (Inl e, w') \<Rightarrow> (Inl e, w')
      | (Inr (Inl text), w') \<Rightarrow> (Inr text, w')
      | (Inr (Inr (projectId_0, projectName, detectedFromRepo)), w') \<Rightarrow>
          (let projectId_1 = (if \<not> truthy projectId_0 then getProjectId w' else projectId_0) in
           if \<not> truthy projectId_1 then (Inr no_project_specified, w')
           else
             (let originalProjectId = getProjectId w';
                  w1 = setProjectId (or_else projectId_1 []) w';
                  (result, w2) =
                    (case listSpecs b w1 of
                       (Inl e, w2) \<Rightarrow> (Inl e, w2)
                     | (Inr specs, w2) \<Rightarrow>
                         (Inr (specs_text input projectName detectedFromRepo specs),
                          setProjectId (or_else originalProjectId []) w2))
              in (result,
                  if truthy originalProjectId
                  then setProjectId (or_else originalProjectId []) w2
                  else w2))))"

subsection \<open>list-projects\<close>

record ListProjectsInput =
  projects_workingDir :: "string option"

definition project_lines :: "Project option \<Rightarrow> Project \<Rightarrow> string list" where
  "project_lines detectedProject project =
     (let isCurrent = (case detectedProject of
                         None \<Rightarrow> False
                       | Some d \<Rightarrow> project_id project = project_id d);
          marker = (if isCurrent then '' (current)'' else []);
          repo = or_else (githubRepositoryFullName project) ''No repo linked''
      in [''- **'' @ project_name project @ ''**'' @ marker,
          ''  ID: '' @ project_id project,
          ''  Repository: '' @ repo,
          []])"

definition projects_text :: "string option \<Rightarrow> Project list \<Rightarrow> string" where
  "projects_text detectedRepo projects =
     (let detectedProject =
            (if truthy detectedRepo
             then find (\<lambda>p. githubRepositoryFullName p = detectedRepo) projects
             else None);
          lines =
            (case detectedProject of
               Some d \<Rightarrow>
                 [''**Detected Project:** '' @ project_name d,
                  ''  ID: '' @ project_id d,
                  ''  Repository: '' @ or_else detectedRepo [],
                  [],
                  ''This project matches your current workspace.'',
                  []]
             | None \<Rightarrow>
                 if truthy detectedRepo
                 then [''**Detected Repository:** '' @ or_else detectedRepo [],
                       ''No project is linked to this repository.'',
                       []]
                 else []);
          lines = lines @ [''**Your Projects ('' @ show_nat (length projects) @ ''):**'', []];
          lines = lines @ concat (map (project_lines detectedProject) projects)
      in join newline lines)"

definition handleListProjects ::
  "backend \<Rightarrow> files \<Rightarrow> ListProjectsInput \<Rightarrow> world \<Rightarrow> (thrown + string) \<times> world" where
  "handleListProjects b fs input w =
     (case (if truthy (projects_workingDir input)
            then getGitHubRepoFromWorkingDir fs (or_else (projects_workingDir input) []) w
            else (None, w)) of
        (detectedRepo, w1) \<Rightarrow>
          (case listProjects b w1 of
             (Inl e, w2) \<Rightarrow> (Inl e, w2)
           | (Inr projects, w2) \<Rightarrow>
               if length projects = 0
               then (Inr ''No projects found. Create a project at specmanager.ai first.'', w2)
               else (Inr (projects_text detectedRepo projects), w2)))"

subsection \<open>get-task\<close>

record GetTaskInput =
  get_taskId :: string

definition excerpt :: "string \<Rightarrow> string \<Rightarrow> string" where
  "excerpt heading content =
     (let shown = take 2000 content;
          truncated = (if length content > 2000 then newline @ ''...(truncated)'' else [])
      in newline @ heading @ newline @ shown @ truncated)"

definition task_text :: "TaskDetail \<Rightarrow> string" where
  "task_text task =
     (let number = (if truthy (taskNumber task) then ''['' @ or_else (taskNumber task) [] @ ''] '' else []);
          sections =
            [''# '' @ number @ title task,
             ''**Status:** '' @ status_text (status task),
             ''**Task ID:** '' @ task_id task,
             ''**Spec:** '' @ detail_title (spec task) @ '' ('' @ detail_stage (spec task) @ '' stage)''];
          sections = sections @
            (if length (files task) > 0
             then [newline @ ''## Files to Modify'' @ newline @
                   join newline (map (\<lambda>f. ''- '' @ f) (files task))]
             else []);
          sections = sections @
            (if truthy (implementation task)
             then [newline @ ''## Implementation Details'' @ newline @ or_else (implementation task) []]
             else []);
          sections = sections @
            (if truthy (purposes task)
             then [newline @ ''## Purpose'' @ newline @ or_else (purposes task) []]
             else []);
          sections = sections @
            (if truthy (requirementsContent (spec task)) \<or> truthy (designContent (spec task))
             then [newline @ ''## Spec Context''] @
                  (if truthy (requirementsContent (spec task))
                   then [excerpt ''### Requirements Excerpt'' (or_else (requirementsContent (spec task)) [])]
                   else []) @
                  (if truthy (designContent (spec task))
                   then [excerpt ''### Design Excerpt'' (or_else (designContent (spec task)) [])]
                   else [])
             else [])
      in join newline sections)"

definition handleGetTask :: "backend \<Rightarrow> GetTaskInput \<Rightarrow> world \<Rightarrow> (thrown + string) \<times> world" where
  "handleGetTask b input w =
     (case getTask b (get_taskId input) w of
        (Inl e, w') \<Rightarrow> (Inl e, w')
      | (Inr task, w') \<Rightarrow> (Inr (task_text task), w'))"

subsection \<open>start-task\<close>

record StartTaskInput =
  start_taskId :: string

definition started_text :: "Task \<Rightarrow> string" where
  "started_text task =
     (let number = (if truthy (taskNumber task) then ''['' @ or_else (taskNumber task) [] @ ''] '' else [])
      in ''Task started: '' @ number @ title task @ newline @ newline @
         ''Task ID: '' @ task_id task @ newline @
         ''Status: '' @ status_text (status task) @ newline @ newline @
         ''You can now begin implementing this task.'' @ newline @
         ''Use '' @ squote @ ''report-progress'' @ squote @ '' to send status updates.'' @ newline @
         ''Use '' @ squote @ ''complete-task'' @ squote @ '' when finished.'')"

definition handleStartTask :: "backend \<Rightarrow> StartTaskInput \<Rightarrow> world \<Rightarrow> (thrown + string) \<times> world" where
  "handleStartTask b input w =
     (case startTask b (start_taskId input) w of
        (Inl e, w') \<Rightarrow> (Inl e, w')
      | (Inr task, w') \<Rightarrow> (Inr (started_text task), w'))"

subsection \<open>complete-task\<close>

record CompleteTaskInput =
  complete_taskId :: string
  complete_summary :: string
  complete_filesModified :: "string list"
  complete_implementation :: "string option"

definition completed_text :: "CompleteTaskInput \<Rightarrow> Task \<Rightarrow> string" where
  "completed_text input task =
     (let number = (if truthy (taskNumber task) then ''['' @ or_else (taskNumber task) [] @ ''] '' else [])
      in ''Task completed: '' @ number @ title task @ newline @ newline @
         ''Task ID: '' @ task_id task @ newline @
         ''Status: '' @ status_text (status task) @ newline @ newline @
         ''Summary: '' @ complete_summary input @ newline @ newline @
         ''Files Modified:'' @ newline @
         join newline (map (\<lambda>f. ''- '' @ f) (complete_filesModified input)) @ newline @ newline @
         ''The task has been marked as done and users have been notified.'')"

definition handleCompleteTask ::
  "backend \<Rightarrow> CompleteTaskInput \<Rightarrow> world \<Rightarrow> (thrown + string) \<times> world" where
  "handleCompleteTask b input w =
     (case completeTask b (complete_taskId input)
             \<lparr>summary = complete_summary input,
              filesModified = complete_filesModified input,
              completion_implementation = complete_implementation input\<rparr> w of
        (Inl e, w') \<Rightarrow> (Inl e, w')
      | (Inr task, w') \<Rightarrow> (Inr (completed_text input task), w'))"

subsection \<open>report-progress\<close>

record ReportProgressInput =
  report_taskId :: string
  report_message :: string
  report_percent :: "int option"

definition show_int :: "int \<Rightarrow> string" where
  "show_int i = (if i < 0 then ''-'' @ show_nat (nat (- i)) else show_nat (nat i))"

definition handleReportProgress ::
  "backend \<Rightarrow> ReportProgressInput \<Rightarrow> world \<Rightarrow> (thrown + string) \<times> world" where
  "handleReportProgress b input w =
     (case reportProgress b (report_taskId input)
             \<lparr>progress_message = report_message input, percent = report_percent input\<rparr> w of
        (Inl e, w') \<Rightarrow> (Inl e, w')
      | (Inr u, w') \<Rightarrow>
          (let percentStr = (case report_percent input of
                               None \<Rightarrow> []
                             | Some p \<Rightarrow> '' ('' @ show_int p @ ''%)'')
           in (Inr (''Progress reported'' @ percentStr @ '': '' @ report_message input), w')))"

section \<open>The dispatcher (src/server.ts)\<close>

text \<open>
  The arguments of a tool call are a \<^verbatim>\<open>Record<string, unknown>\<close>: the dispatcher never looks
  into the values, whose type is the parameter \<open>'u\<close>. \<^verbatim>\<open>{}\<close> is the empty list.
\<close>

type_synonym 'u args = "(string \<times> 'u) list"

text \<open>
  The seven schemas. The validation library is not part of the repository: what \<^verbatim>\<open>parse\<close>
  makes of an argument structure is a parameter of the model. It returns the validated input or
  throws a \<^verbatim>\<open>ZodError\<close> with its issues (\<open>Inl\<close>).
\<close>

record 'u schemas =
  listProjectsSchema :: "'u args \<Rightarrow> zod_issue list + ListProjectsInput"
  listSpecsSchema :: "'u args \<Rightarrow> zod_issue list + ListSpecsInput"
  listTasksSchema :: "'u args \<Rightarrow> zod_issue list + ListTasksInput"
  getTaskSchema :: "'u args \<Rightarrow> zod_issue list + GetTaskInput"
  startTaskSchema :: "'u args \<Rightarrow> zod_issue list + StartTaskInput"
  completeTaskSchema :: "'u args \<Rightarrow> zod_issue list + CompleteTaskInput"
  reportProgressSchema :: "'u args \<Rightarrow> zod_issue list + ReportProgressInput"

text \<open>\<^verbatim>\<open>const input = schema.parse(args); return handler(apiClient, input);\<close>\<close>

definition parse_then ::
  "('u args \<Rightarrow> zod_issue list + 'i) \<Rightarrow> ('i \<Rightarrow> world \<Rightarrow> (thrown + string) \<times> world) \<Rightarrow>
   'u args \<Rightarrow> world \<Rightarrow> (thrown + string) \<times> world" where
  "parse_then parse handler args w =
     (case parse args of
        Inl issues \<Rightarrow> (Inl (ZodError issues), w)
      | Inr input \<Rightarrow> handler input w)"

definition handleToolCall ::
  "'u schemas \<Rightarrow> backend \<Rightarrow> files \<Rightarrow> string \<Rightarrow> 'u args \<Rightarrow> world \<Rightarrow> (thrown + string) \<times> world" where
  "handleToolCall S b fs name args w =
     (if name = ''list-projects'' then parse_then (listProjectsSchema S) (handleListProjects b fs) args w
      else if name = ''list-specs'' then parse_then (listSpecsSchema S) (handleListSpecs b fs) args w
      else if name = ''list-tasks'' then parse_then (listTasksSchema S) (handleListTasks b fs) args w
      else if name = ''get-task'' then parse_then (getTaskSchema S) (handleGetTask b) args w
      else if name = ''start-task'' then parse_then (startTaskSchema S) (handleStartTask b) args w
      else if name = ''complete-task'' then parse_then (completeTaskSchema S) (handleCompleteTask b) args w
      else if name = ''report-progress'' then parse_then (reportProgressSchema S) (handleReportProgress b) args w
      else (Inl (Error (''Unknown tool: '' @ name)), w))"

definition issue_line :: "zod_issue \<Rightarrow> string" where
  "issue_line i = ''- '' @ join ''.'' (issue_path i) @ '': '' @ issue_message i"

fun formatError :: "thrown \<Rightarrow> string" where
  "formatError (MCPServerError message code httpStatus) =
     ''Error ['' @ code_text code @ '']: '' @ message"
| "formatError (ZodError issues) =
     ''Validation error:'' @ newline @ join newline (map issue_line issues)"
| "formatError (Error message) = ''Error: '' @ message"
| "formatError NonError = ''An unknown error occurred''"

text \<open>The result of a tool call: one text, and the flag \<^verbatim>\<open>isError\<close> (absent on success).\<close>

record tool_result =
  content_text :: string
  isError :: bool

text \<open>
  The handler that \<^verbatim>\<open>createServerInstance\<close> registers for \<^verbatim>\<open>CallToolRequestSchema\<close>, bound to
  one API client: \<^verbatim>\<open>args || {}\<close>, the call, and the \<^verbatim>\<open>catch\<close> that formats the error.
\<close>

definition callTool ::
  "'u schemas \<Rightarrow> backend \<Rightarrow> files \<Rightarrow> string \<Rightarrow> 'u args option \<Rightarrow> world \<Rightarrow> tool_result \<times> world" where
  "callTool S b fs name arguments w =
     (case handleToolCall S b fs name (case arguments of None \<Rightarrow> [] | Some args \<Rightarrow> args) w of
        (Inr result, w') \<Rightarrow> (\<lparr>content_text = result, isError = False\<rparr>, w')
      | (Inl error, w') \<Rightarrow> (\<lparr>content_text = formatError error, isError = True\<rparr>, w'))"

text \<open>The names of \<^verbatim>\<open>toolDefinitions\<close>, which the handler for \<^verbatim>\<open>ListToolsRequestSchema\<close> returns.\<close>

definition toolDefinitions :: "string list" where
  "toolDefinitions =
     [''list-projects'', ''list-specs'', ''list-tasks'', ''get-task'', ''start-task'',
      ''complete-task'', ''report-progress'']"

section \<open>The HTTP transport (src/server.ts)\<close>

subsection \<open>Requests, responses and the state of the server\<close>

text \<open>
  The three headers the handlers read. A header of an incoming message is absent, a string or
  an array of strings; the code tests \<^verbatim>\<open>typeof apiKey === 'string'\<close>. The routes are entered
  after the JSON middleware of the web framework has read the body of the request.
\<close>

datatype header_value = Absent | Single string | Multiple "string list"

record Request =
  authorization :: "string option"
  x_api_key :: header_value
  mcp_session_id :: "string option"

text \<open>
  What a handler answers: a status with a JSON object, a status with no body, the answer the
  transport of the protocol library wrote (its status and the results of the tool calls it
  dispatched), or nothing at all when a handler without a \<^verbatim>\<open>catch\<close> is left by an exception.
\<close>

datatype http_response =
    Json_response nat "(string \<times> string) list"
  | Empty_response nat
  | Sdk_response nat "tool_result list"
  | Unanswered

text \<open>
  \<^verbatim>\<open>SessionData\<close> holds three objects. An object is known by its identity, a number; the
  objects themselves live in the state of the server.
\<close>

record SessionData =
  transport :: nat
  apiClient :: nat
  server :: nat

text \<open>
  The state: the map \<^verbatim>\<open>sessions\<close> and \<^verbatim>\<open>defaultApiUrl\<close> of the class \<^verbatim>\<open>MCPServer\<close>; the API
  clients created so far; \<^verbatim>\<open>transport.sessionId\<close> of each transport that has one; the
  transports and server instances that were closed; the number of objects created so far; and
  the trace of network calls and file reads of all sessions.
\<close>

record MCPServer =
  sessions :: "string \<rightharpoonup> SessionData"
  defaultApiUrl :: string
  apiClients :: "nat \<rightharpoonup> TaskApiClient"
  transport_sessionId :: "nat \<rightharpoonup> string"
  closed :: "nat set"
  allocated :: nat
  effects :: "event list"

definition extractApiKey :: "Request \<Rightarrow> string option" where
  "extractApiKey req =
     (let direct = (case x_api_key req of Single key \<Rightarrow> Some key | _ \<Rightarrow> None)
      in case authorization req of
           None \<Rightarrow> direct
         | Some authHeader \<Rightarrow>
             if startsWith authHeader ''Bearer '' then Some (drop 7 authHeader) else direct)"

subsection \<open>The callbacks the code hands to the protocol library\<close>

text \<open>\<^verbatim>\<open>onsessioninitialized: (newSessionId) => { this.sessions.set(newSessionId, sessionData) }\<close>\<close>

definition onsessioninitialized :: "SessionData \<Rightarrow> string \<Rightarrow> MCPServer \<Rightarrow> MCPServer" where
  "onsessioninitialized sessionData newSessionId st =
     st\<lparr>sessions := (sessions st)(newSessionId \<mapsto> sessionData)\<rparr>"

text \<open>\<^verbatim>\<open>transport.onclose = () => { if (transport.sessionId) this.sessions.delete(transport.sessionId) }\<close>\<close>

definition onclose :: "nat \<Rightarrow> MCPServer \<Rightarrow> MCPServer" where
  "onclose t st =
     (case transport_sessionId st t of
        None \<Rightarrow> st
      | Some sid \<Rightarrow> if sid = [] then st else st\<lparr>sessions := (sessions st)(sid := None)\<rparr>)"

text \<open>
  The protocol library is not part of the repository. The model takes from its documentation
  that closing a transport calls its \<^verbatim>\<open>onclose\<close> and that closing a server instance closes the
  transport it is connected to.
\<close>

definition transport_close :: "nat \<Rightarrow> MCPServer \<Rightarrow> MCPServer" where
  "transport_close t st = onclose t (st\<lparr>closed := insert t (closed st)\<rparr>)"

definition server_close :: "SessionData \<Rightarrow> MCPServer \<Rightarrow> MCPServer" where
  "server_close sessionData st =
     transport_close (transport sessionData) (st\<lparr>closed := insert (server sessionData) (closed st)\<rparr>)"

text \<open>
  What \<^verbatim>\<open>transport.handleRequest\<close> does with one request is a parameter of the model: a list of
  the callbacks it makes, in order, and how it ends. It may initialise the session (it sets
  \<^verbatim>\<open>transport.sessionId\<close> to the identifier that \<^verbatim>\<open>sessionIdGenerator\<close> returned and calls
  \<^verbatim>\<open>onsessioninitialized\<close> with it), hand a tool call or a request for the list of tools to the
  server instance, or close. It ends with a response of some status, or with an exception,
  before or after it sent the headers.
\<close>

datatype 'u sdk_step =
    Session_initialized string
  | Tool_call string "'u args option"
  | Tools_list
  | Transport_closes

datatype sdk_end = Responds nat | Throws "nat option"

text \<open>
  A tool call runs the handler of the session's server instance, which is bound to the
  session's API client; the client and the trace are written back.
\<close>

fun sdk_steps ::
  "'u schemas \<Rightarrow> backend \<Rightarrow> files \<Rightarrow> SessionData \<Rightarrow> 'u sdk_step list \<Rightarrow> MCPServer \<Rightarrow>
   tool_result list \<times> MCPServer" where
  "sdk_steps S b fs sd [] st = ([], st)"
| "sdk_steps S b fs sd (Session_initialized newSessionId # steps) st =
     sdk_steps S b fs sd steps
       (onsessioninitialized sd newSessionId
          (st\<lparr>transport_sessionId := (transport_sessionId st)(transport sd \<mapsto> newSessionId)\<rparr>))"
| "sdk_steps S b fs sd (Tool_call name arguments # steps) st =
     (case apiClients st (apiClient sd) of
        None \<Rightarrow> sdk_steps S b fs sd steps st
      | Some c \<Rightarrow>
          (case callTool S b fs name arguments \<lparr>client = c, trace = effects st\<rparr> of
             (result, w) \<Rightarrow>
               (case sdk_steps S b fs sd steps
                       (st\<lparr>apiClients := (apiClients st)(apiClient sd \<mapsto> client w),
                           effects := trace w\<rparr>) of
                  (results, st') \<Rightarrow> (result # results, st'))))"
| "sdk_steps S b fs sd (Tools_list # steps) st = sdk_steps S b fs sd steps st"
| "sdk_steps S b fs sd (Transport_closes # steps) st =
     sdk_steps S b fs sd steps (transport_close (transport sd) st)"

subsection \<open>The routes\<close>

definition health :: http_response where
  "health = Json_response 200
     [(''status'', ''ok''), (''server'', ''@specmanager/mcp-server''), (''version'', ''0.1.0''),
      (''transport'', ''http'')]"

definition unauthorized :: http_response where
  "unauthorized = Json_response 401
     [(''error'', ''Unauthorized''),
      (''message'',
       ''API key required. Provide via Authorization: Bearer <key> or X-API-Key header.'')]"

text \<open>
  The branch of the POST route that creates a session: the API client for the key of the
  request, the server instance bound to it, the transport, and the session data that holds the
  three; the server instance is then connected to the transport.
\<close>

definition new_session :: "string \<Rightarrow> MCPServer \<Rightarrow> SessionData \<times> MCPServer" where
  "new_session key st =
     (let c = allocated st; s = allocated st + 1; t = allocated st + 2
      in (\<lparr>transport = t, apiClient = c, server = s\<rparr>,
          st\<lparr>apiClients := (apiClients st)
                 (c \<mapsto> new_TaskApiClient \<lparr>config_apiUrl = defaultApiUrl st, config_apiKey = key,
                                            config_projectId = None\<rparr>),
             allocated := allocated st + 3\<rparr>))"

text \<open>\<^verbatim>\<open>app.post('/mcp', ...)\<close>, with its \<^verbatim>\<open>catch\<close>.\<close>

definition post_mcp ::
  "'u schemas \<Rightarrow> backend \<Rightarrow> files \<Rightarrow> Request \<Rightarrow> 'u sdk_step list \<times> sdk_end \<Rightarrow> MCPServer \<Rightarrow>
   http_response \<times> MCPServer" where
  "post_mcp S b fs req sdk st =
     (if \<not> truthy (extractApiKey req) then (unauthorized, st)
      else
        (case (case (if truthy (mcp_session_id req)
                     then sessions st (or_else (mcp_session_id req) []) else None) of
                 Some sessionData \<Rightarrow> (sessionData, st)
               | None \<Rightarrow> new_session (or_else (extractApiKey req) []) st) of
           (sessionData, st1) \<Rightarrow>
             (case sdk_steps S b fs sessionData (fst sdk) st1 of
                (results, st2) \<Rightarrow>
                  (case snd sdk of
                     Responds code \<Rightarrow> (Sdk_response code results, st2)
                   | Throws None \<Rightarrow>
                       (Json_response 500 [(''error'', ''Internal server error'')], st2)
                   | Throws (Some code) \<Rightarrow> (Sdk_response code results, st2)))))"

text \<open>\<^verbatim>\<open>app.get('/mcp', ...)\<close>\<close>

definition get_mcp ::
  "'u schemas \<Rightarrow> backend \<Rightarrow> files \<Rightarrow> Request \<Rightarrow> 'u sdk_step list \<times> sdk_end \<Rightarrow> MCPServer \<Rightarrow>
   http_response \<times> MCPServer" where
  "get_mcp S b fs req sdk st =
     (case (case mcp_session_id req of None \<Rightarrow> None | Some sessionId \<Rightarrow> sessions st sessionId) of
        None \<Rightarrow> (Json_response 400 [(''error'', ''No active session'')], st)
      | Some sessionData \<Rightarrow>
          (case sdk_steps S b fs sessionData (fst sdk) st of
             (results, st1) \<Rightarrow>
               (case snd sdk of
                  Responds code \<Rightarrow> (Sdk_response code results, st1)
                | Throws None \<Rightarrow> (Unanswered, st1)
                | Throws (Some code) \<Rightarrow> (Sdk_response code results, st1))))"

text \<open>\<^verbatim>\<open>app.delete('/mcp', ...)\<close>\<close>

definition delete_mcp :: "Request \<Rightarrow> MCPServer \<Rightarrow> http_response \<times> MCPServer" where
  "delete_mcp req st =
     (case mcp_session_id req of
        None \<Rightarrow> (Empty_response 204, st)
      | Some sessionId \<Rightarrow>
          (case sessions st sessionId of
             None \<Rightarrow> (Empty_response 204, st)
           | Some sessionData \<Rightarrow>
               (let st1 = transport_close (transport sessionData) st;
                    st2 = server_close sessionData st1;
                    st3 = st2\<lparr>sessions := (sessions st2)(sessionId := None)\<rparr>
                in (Empty_response 204, st3))))"

section \<open>Worlds that differ in an unset and an empty scope only\<close>

text \<open>\<open>same_but_scope w' w\<close>: the two worlds are equal, or the scope is unset in \<open>w\<close>, empty in
  \<open>w'\<close>, and nothing else differs.\<close>

definition same_but_scope :: "world \<Rightarrow> world \<Rightarrow> bool" where
  "same_but_scope w' w = (w' = w \<or> (getProjectId w = None \<and> w' = setProjectId [] w))"

section \<open>Example inputs\<close>

text \<open>Concrete clients, worlds and backends at which the theorems below are instantiated.\<close>

definition example_project :: Project where
  "example_project = \<lparr>project_id = ''p1'', project_name = ''Widgets'',
     githubRepositoryFullName = Some ''acme/widgets'', githubRepositoryUrl = None,
     githubRepositoryDefaultBranch = None, project_createdAt = [], project_updatedAt = []\<rparr>"

definition example_client :: TaskApiClient where
  "example_client = \<lparr>apiUrl = ''https://api.specmanager.ai'', apiKey = ''k'', projectId = None\<rparr>"

definition example_world :: world where
  "example_world = \<lparr>client = example_client, trace = []\<rparr>"

definition reply_with :: "'a fetch_result \<Rightarrow> 'a replies" where
  "reply_with r = (\<lambda>t c. r)"

definition offline :: backend where
  "offline = \<lparr>me_reply = reply_with (Rejects (Rejected_Error ''fetch failed'')),
     tasks_reply = reply_with (Rejects (Rejected_Error ''fetch failed'')),
     task_reply = reply_with (Rejects (Rejected_Error ''fetch failed'')),
     start_reply = reply_with (Rejects (Rejected_Error ''fetch failed'')),
     complete_reply = reply_with (Rejects (Rejected_Error ''fetch failed'')),
     progress_reply = reply_with (Rejects (Rejected_Error ''fetch failed'')),
     projects_reply = reply_with (Rejects (Rejected_Error ''fetch failed'')),
     specs_reply = reply_with (Rejects (Rejected_Error ''fetch failed'')),
     by_repo_reply = reply_with (Rejects (Rejected_Error ''fetch failed''))\<rparr>"

definition error_body :: "string \<Rightarrow> error_data" where
  "error_body c = \<lparr>data_message = Some ''rejected'', data_error = None, data_code = Some c\<rparr>"

definition no_files :: files where
  "no_files = (\<lambda>t path. None)"

definition project_A :: string where
  "project_A = ''0a8f5c1e-3b7d-4e2a-9c64-1f2e3d4c5b6a''"

definition project_B :: string where
  "project_B = ''123e4567-e89b-12d3-a456-426614174000''"

definition list_tasks_B :: ListTasksInput where
  "list_tasks_B = \<lparr>tasks_projectId = Some project_B, tasks_workingDir = None,
     tasks_status = Only Pending, tasks_specId = None\<rparr>"

definition list_specs_B :: ListSpecsInput where
  "list_specs_B = \<lparr>specs_projectId = Some project_B, specs_workingDir = None,
     includeCompleted = False\<rparr>"

text \<open>A backend that has no tasks and no specs for any project, and one that answers 500.\<close>

definition empty_backend :: backend where
  "empty_backend = offline\<lparr>tasks_reply := reply_with (Response 200 (Json_resolves (Record empty_object) [])),
     specs_reply := reply_with (Response 200 (Json_resolves (Record empty_object) []))\<rparr>"

definition failing_backend :: backend where
  "failing_backend = offline\<lparr>tasks_reply := reply_with (Response 500 (Json_rejects Rejected_value)),
     specs_reply := reply_with (Response 500 (Json_rejects Rejected_value))\<rparr>"

text \<open>The example world with the scope set to project A.\<close>

definition world_A :: world where
  "world_A = setProjectId project_A example_world"

text \<open>Schemas that accept any arguments of list-projects and reject any arguments of the other
  six tools, with the issues shown.\<close>

definition rejecting_schemas :: "unit schemas" where
  "rejecting_schemas =
     \<lparr>listProjectsSchema = (\<lambda>a. Inr \<lparr>projects_workingDir = None\<rparr>),
      listSpecsSchema = (\<lambda>a. Inl [\<lparr>issue_path = [''projectId''], issue_message = ''Invalid uuid''\<rparr>]),
      listTasksSchema = (\<lambda>a. Inl [\<lparr>issue_path = [''projectId''], issue_message = ''Invalid uuid''\<rparr>,
                                \<lparr>issue_path = [''status''], issue_message = ''Invalid enum value''\<rparr>]),
      getTaskSchema = (\<lambda>a. Inl [\<lparr>issue_path = [''taskId''], issue_message = ''Task ID must be a valid UUID''\<rparr>]),
      startTaskSchema = (\<lambda>a. Inl [\<lparr>issue_path = [''taskId''], issue_message = ''Task ID must be a valid UUID''\<rparr>]),
      completeTaskSchema = (\<lambda>a. Inl [\<lparr>issue_path = [''summary''], issue_message = ''Summary is required''\<rparr>]),
      reportProgressSchema = (\<lambda>a. Inl [\<lparr>issue_path = [''message''], issue_message = ''Progress message is required''\<rparr>])\<rparr>"

text \<open>A server with no session yet, a request with a key and one without credentials.\<close>

definition fresh_server :: MCPServer where
  "fresh_server = \<lparr>sessions = Map.empty, defaultApiUrl = ''https://api.specmanager.ai'',
     apiClients = Map.empty, transport_sessionId = Map.empty, closed = {}, allocated = 0,
     effects = []\<rparr>"

definition request_with_key :: Request where
  "request_with_key = \<lparr>authorization = Some ''Bearer secret'', x_api_key = Absent,
     mcp_session_id = None\<rparr>"

definition request_without_key :: Request where
  "request_without_key = \<lparr>authorization = Some ''Basic dXNlcjpwdw=='', x_api_key = Absent,
     mcp_session_id = None\<rparr>"

definition session_1 :: string where
  "session_1 = ''7d3c0f0e-52a1-4c55-9a3b-2f6c1d9e8b40''"

definition delete_session_1 :: Request where
  "delete_session_1 = \<lparr>authorization = None, x_api_key = Absent, mcp_session_id = Some session_1\<rparr>"

section \<open>The API client: failure kinds\<close>





text \<open>
  Claim C8. \<open>getProjectByRepo\<close> turns exactly the failure of kind \<open>PROJECT_NOT_FOUND\<close> into the
  absent result \<open>None\<close> (\<^verbatim>\<open>null\<close>); a failure of any other kind is thrown again unchanged, and a
  project that was found is returned.
\<close>

theorem C8_project_not_found_is_absent:
  fixes b :: backend and repoFullName :: string and w :: world
  defines "call \<equiv> request (by_repo_reply b) ''GET''
                    (''/projects/by-repo?repo='' @ encodeURIComponent repoFullName) None w"
  shows
   "(\<forall>e. fst call = Inl e \<and> code_of e = Some PROJECT_NOT_FOUND \<longrightarrow>
        getProjectByRepo b repoFullName w = (Inr None, snd call))
  \<and> (\<forall>e. fst call = Inl e \<and> code_of e \<noteq> Some PROJECT_NOT_FOUND \<longrightarrow>
        getProjectByRepo b repoFullName w = (Inl e, snd call))
  \<and> (\<forall>p. fst call = Inr p \<longrightarrow> getProjectByRepo b repoFullName w = (Inr (Some p), snd call))"
  unfolding call_def
  by (auto simp: getProjectByRepo_def split: prod.splits sum.splits)



text \<open>C8 at a backend that answers 404 with the code, one that is unreachable, and one that finds the project.\<close>

theorem C8_project_not_found_is_absent_witness:
  "fst (getProjectByRepo (offline\<lparr>by_repo_reply :=
          reply_with (Response 404 (Json_resolves (Record (error_body ''PROJECT_NOT_FOUND'')) example_project))\<rparr>)
        ''acme/widgets'' example_world) = Inr None
 \<and> fst (getProjectByRepo offline ''acme/widgets'' example_world)
       = Inl (MCPServerError ''Network error: fetch failed'' NETWORK_ERROR None)
 \<and> fst (getProjectByRepo (offline\<lparr>by_repo_reply :=
          reply_with (Response 200 (Json_resolves (Record empty_object) example_project))\<rparr>)
        ''acme/widgets'' example_world) = Inr (Some example_project)"
proof -
  have "fst (getProjectByRepo (offline\<lparr>by_repo_reply :=
          reply_with (Response 404 (Json_resolves (Record (error_body ''PROJECT_NOT_FOUND'')) example_project))\<rparr>)
        ''acme/widgets'' example_world) = Inr None"
    using C8_project_not_found_is_absent [where w = example_world and repoFullName = "''acme/widgets''"
      and b = "offline\<lparr>by_repo_reply :=
          reply_with (Response 404 (Json_resolves (Record (error_body ''PROJECT_NOT_FOUND'')) example_project))\<rparr>"]
    by (simp add: request_def reply_with_def ok_def error_body_def or_else_def Let_def)
  moreover have "fst (getProjectByRepo offline ''acme/widgets'' example_world)
       = Inl (MCPServerError ''Network error: fetch failed'' NETWORK_ERROR None)"
    using C8_project_not_found_is_absent [where w = example_world and repoFullName = "''acme/widgets''"
      and b = offline]
    by (simp add: request_def reply_with_def offline_def Let_def)
  moreover have "fst (getProjectByRepo (offline\<lparr>by_repo_reply :=
          reply_with (Response 200 (Json_resolves (Record empty_object) example_project))\<rparr>)
        ''acme/widgets'' example_world) = Inr (Some example_project)"
    using C8_project_not_found_is_absent [where w = example_world and repoFullName = "''acme/widgets''"
      and b = "offline\<lparr>by_repo_reply :=
          reply_with (Response 200 (Json_resolves (Record empty_object) example_project))\<rparr>"]
    by (simp add: request_def reply_with_def ok_def Let_def)
  ultimately show ?thesis by blast
qed

section \<open>Git remote URLs: the matcher and the shapes\<close>

lemma many_iff: "many P Q s \<longleftrightarrow> (\<exists>us vs. s = us @ vs \<and> list_all P us \<and> Q vs)"
proof (induction s)
  case Nil
  show ?case by simp
next
  case (Cons c cs)
  show ?case (is "?L \<longleftrightarrow> ?R")
  proof
    assume ?L
    then consider "Q (c # cs)" | "P c" "many P Q cs" by auto
    then show ?R
    proof cases
      case 1
      then have "c # cs = [] @ (c # cs) \<and> list_all P [] \<and> Q (c # cs)" by simp
      then show ?thesis by blast
    next
      case 2
      with Cons obtain us vs where "cs = us @ vs" "list_all P us" "Q vs" by blast
      with 2 have "c # cs = (c # us) @ vs \<and> list_all P (c # us) \<and> Q vs" by simp
      then show ?thesis by blast
    qed
  next
    assume ?R
    then obtain us vs where *: "c # cs = us @ vs" "list_all P us" "Q vs" by blast
    show ?L
    proof (cases us)
      case Nil
      with * have "Q (c # cs)" by simp
      then show ?thesis by simp
    next
      case (Cons u us')
      with * have "c = u" "cs = us' @ vs" "P u" "list_all P us'" by auto
      with * Cons.IH show ?thesis by auto
    qed
  qed
qed

lemma some_iff:
  "(\<exists>us vs. s = us @ vs \<and> us \<noteq> [] \<and> list_all P us \<and> Q vs) \<longleftrightarrow>
     (case s of [] \<Rightarrow> False | c # cs \<Rightarrow> P c \<and> many P Q cs)"
  (is "?L \<longleftrightarrow> ?R")
proof
  assume ?L
  then obtain us vs where *: "s = us @ vs" "us \<noteq> []" "list_all P us" "Q vs" by blast
  then obtain c us' where "us = c # us'" by (cases us) auto
  with * have "s = c # (us' @ vs)" "P c" "list_all P us'" by auto
  with * show ?R by (auto simp: many_iff)
next
  assume ?R
  then obtain c cs where "s = c # cs" "P c" "many P Q cs" by (cases s) auto
  then obtain us vs where "s = c # cs" "P c" "cs = us @ vs" "list_all P us" "Q vs"
    by (auto simp: many_iff)
  then have "s = (c # us) @ vs \<and> c # us \<noteq> [] \<and> list_all P (c # us) \<and> Q vs" by simp
  then show ?L by blast
qed

lemma accepts_Star: "accepts (Star a # re) s = many (atom_match a) (accepts re) s"
  by (simp add: many_iff)

lemma accepts_Lazy_star: "accepts (Lazy_star a # re) s = many (atom_match a) (accepts re) s"
  by (simp add: many_iff)

lemma accepts_Plus:
  "accepts (Plus a # re) s = (case s of [] \<Rightarrow> False | c # cs \<Rightarrow> atom_match a c \<and> many (atom_match a) (accepts re) cs)"
  by (simp add: some_iff)

lemma accepts_Lazy_plus:
  "accepts (Lazy_plus a # re) s = (case s of [] \<Rightarrow> False | c # cs \<Rightarrow> atom_match a c \<and> many (atom_match a) (accepts re) cs)"
  by (simp add: some_iff)

lemmas accepts_many = accepts_Star accepts_Lazy_star accepts_Plus accepts_Lazy_plus

lemma take_prefix_iff: "take (length l) s = l \<longleftrightarrow> (\<exists>vs. s = l @ vs)"
  by (metis append_eq_conv_conj append_take_drop_id)

lemma run_accepts: "run re s i g \<noteq> None \<longleftrightarrow> accepts re s"
proof (induction re s i g rule: run.induct)
  case (1 s i g)
  show ?case by simp
next
  case (2 a re s i g)
  then show ?case by (cases s) auto
next
  case (3 a re s i g)
  then show ?case by (cases s) (auto split: option.splits)
next
  case (4 a re s i g)
  then show ?case
    by (cases s) (auto simp del: accepts.simps run.simps(5) simp add: accepts_many)
next
  case (5 a re s i g)
  then show ?case
    by (cases s) (auto simp del: accepts.simps simp add: accepts_many split: option.splits)
next
  case (6 a re s i g)
  then show ?case
    by (cases s) (auto simp del: accepts.simps run.simps(7) simp add: accepts_many)
next
  case (7 a re s i g)
  then show ?case
    by (cases s) (auto simp del: accepts.simps simp add: accepts_many split: option.splits)
next
  case (8 l re s i g)
  then show ?case
    by (auto simp: take_prefix_iff split: option.splits)
next
  case (9 re s i g)
  then show ?case by simp
next
  case (10 re s i g)
  then show ?case by simp
next
  case (11 re s i g)
  then show ?case by simp
qed

lemma search_accepts: "search re s i \<noteq> None \<longleftrightarrow> (\<exists>pre suf. s = pre @ suf \<and> accepts re suf)"
proof (induction s arbitrary: i)
  case Nil
  show ?case using run_accepts [of re "[]" i "(0, 0)"] by (auto simp: search.simps [of re "[]"] split: option.splits)
next
  case (Cons c cs)
  have "search re (c # cs) i \<noteq> None \<longleftrightarrow> accepts re (c # cs) \<or> search re cs (Suc i) \<noteq> None"
    using run_accepts [of re "c # cs" i "(0, 0)"] by (auto simp: search.simps [of re "c # cs"] split: option.splits)
  also have "\<dots> \<longleftrightarrow> accepts re (c # cs) \<or> (\<exists>pre suf. cs = pre @ suf \<and> accepts re suf)"
    using Cons.IH by simp
  also have "\<dots> \<longleftrightarrow> (\<exists>pre suf. c # cs = pre @ suf \<and> accepts re suf)"
    by (auto simp: Cons_eq_append_conv)
  finally show ?case .
qed


lemma accepts_lits: "accepts (lits l @ re) s \<longleftrightarrow> (\<exists>vs. s = l @ vs \<and> accepts re vs)"
  by (induction l arbitrary: s) (auto simp: lits_def)

lemma list_all_Not_char: "list_all (atom_match (Not_char c)) us \<longleftrightarrow> c \<notin> set us"
  by (induction us) auto

lemma accepts_owner_repo: "accepts owner_repo s \<longleftrightarrow> owner_repo_shape s"
  unfolding owner_repo_def owner_repo_shape_def
  by (simp add: list_all_Not_char) blast

lemma accepts_https_suf:
  "accepts https_pattern suf \<longleftrightarrow>
          (\<exists>rest. (suf = ''http://github.com/'' @ rest \<or> suf = ''https://github.com/'' @ rest) \<and>
             owner_repo_shape rest)"
    unfolding https_pattern_def
    by (simp add: accepts_lits accepts_owner_repo) blast

lemma accepts_ssh_suf:
  "accepts ssh_pattern suf \<longleftrightarrow> (\<exists>rest. suf = ''git@github.com:'' @ rest \<and> owner_repo_shape rest)"
  unfolding ssh_pattern_def
  by (simp add: accepts_lits accepts_owner_repo)

lemma match_group_None: "match_group re url = None \<longleftrightarrow> search re url 0 = None"
  by (auto simp: match_group_def split: option.splits)

lemma search_https: "search https_pattern url 0 = None \<longleftrightarrow> \<not> ends_in_https_form url"
  using search_accepts [of https_pattern url 0]
  unfolding accepts_https_suf ends_in_https_form_def by blast

lemma search_ssh: "search ssh_pattern url 0 = None \<longleftrightarrow> \<not> ends_in_ssh_form url"
  using search_accepts [of ssh_pattern url 0]
  unfolding accepts_ssh_suf ends_in_ssh_form_def by blast

lemma parseGitRemoteUrl_None:
  "parseGitRemoteUrl url = None \<longleftrightarrow> \<not> ends_in_https_form url \<and> \<not> ends_in_ssh_form url"
proof -
  have "(parseGitRemoteUrl url = None) =
          (search https_pattern url 0 = None \<and> search ssh_pattern url 0 = None)"
    by (simp add: parseGitRemoteUrl_def match_group_None [symmetric] split: option.splits)
  then show ?thesis
    by (simp add: search_https search_ssh)
qed

text \<open>A URL of a shape of the specification ends in the form that the pattern accepts.\<close>

lemma https_shape_form: "https_shape url \<Longrightarrow> ends_in_https_form url"
  unfolding https_shape_def ends_in_https_form_def
  by (metis append_Nil)

lemma ssh_shape_form: "ssh_shape url \<Longrightarrow> ends_in_ssh_form url"
  unfolding ssh_shape_def ends_in_ssh_form_def
  by (metis append_Nil)

text \<open>
  Claim C9, as stated, at two URLs of neither shape: an \<^verbatim>\<open>ftp\<close> URL that carries a repository
  URL in its query, and a repository URL behind one more letter. Both are mapped to
  \<^verbatim>\<open>acme/widgets\<close>, not to the absent result.
\<close>

theorem C9_counterexample:
  "\<not> https_shape ''ftp://evil.example/x?u=https://github.com/acme/widgets''
 \<and> \<not> ssh_shape ''ftp://evil.example/x?u=https://github.com/acme/widgets''
 \<and> parseGitRemoteUrl ''ftp://evil.example/x?u=https://github.com/acme/widgets'' = Some ''acme/widgets''
 \<and> \<not> https_shape ''xhttps://github.com/acme/widgets''
 \<and> \<not> ssh_shape ''xhttps://github.com/acme/widgets''
 \<and> parseGitRemoteUrl ''xhttps://github.com/acme/widgets'' = Some ''acme/widgets''"
proof -
  have 1: "parseGitRemoteUrl ''ftp://evil.example/x?u=https://github.com/acme/widgets''
             = Some ''acme/widgets''"
    by code_simp
  have 2: "parseGitRemoteUrl ''xhttps://github.com/acme/widgets'' = Some ''acme/widgets''"
    by code_simp
  show ?thesis
    using 1 2 by (simp add: https_shape_def ssh_shape_def)
qed

text \<open>
  Claim C9, amended. \<open>parseGitRemoteUrl\<close> maps \<^verbatim>\<open>https://github.com/acme/widgets.git\<close>,
  \<^verbatim>\<open>https://github.com/acme/widgets\<close> and \<^verbatim>\<open>git@github.com:acme/widgets.git\<close> to
  \<^verbatim>\<open>acme/widgets\<close>; it maps no URL of the HTTPS or the SSH shape to the absent result; and it
  is total and returns the absent result \<open>None\<close> (\<^verbatim>\<open>null\<close>) for every URL that does not end
  in a text of the form \<^verbatim>\<open>http://github.com/owner/repo\<close>, \<^verbatim>\<open>https://github.com/owner/repo\<close> or
  \<^verbatim>\<open>git@github.com:owner/repo\<close>, each with or without \<^verbatim>\<open>.git\<close>.
\<close>

theorem C9_parseGitRemoteUrl:
  "parseGitRemoteUrl ''https://github.com/acme/widgets.git'' = Some ''acme/widgets''
 \<and> parseGitRemoteUrl ''https://github.com/acme/widgets'' = Some ''acme/widgets''
 \<and> parseGitRemoteUrl ''git@github.com:acme/widgets.git'' = Some ''acme/widgets''
 \<and> (https_shape url \<or> ssh_shape url \<longrightarrow> parseGitRemoteUrl url \<noteq> None)
 \<and> (\<not> ends_in_https_form url \<and> \<not> ends_in_ssh_form url \<longrightarrow> parseGitRemoteUrl url = None)"
proof -
  have 1: "parseGitRemoteUrl ''https://github.com/acme/widgets.git'' = Some ''acme/widgets''"
    by code_simp
  have 2: "parseGitRemoteUrl ''https://github.com/acme/widgets'' = Some ''acme/widgets''"
    by code_simp
  have 3: "parseGitRemoteUrl ''git@github.com:acme/widgets.git'' = Some ''acme/widgets''"
    by code_simp
  have 4: "https_shape url \<or> ssh_shape url \<longrightarrow> parseGitRemoteUrl url \<noteq> None"
    using https_shape_form [of url] ssh_shape_form [of url] parseGitRemoteUrl_None [of url]
    by blast
  have 5: "\<not> ends_in_https_form url \<and> \<not> ends_in_ssh_form url \<longrightarrow> parseGitRemoteUrl url = None"
    using parseGitRemoteUrl_None [of url] by blast
  from 1 2 3 4 5 show ?thesis by blast
qed

text \<open>C9 at a URL of another host and scheme, which ends in neither form, and at a URL of the
  HTTPS shape.\<close>

theorem C9_parseGitRemoteUrl_witness:
  "\<not> ends_in_https_form ''ftp://example.org/acme/widgets.git''
 \<and> \<not> ends_in_ssh_form ''ftp://example.org/acme/widgets.git''
 \<and> parseGitRemoteUrl ''ftp://example.org/acme/widgets.git'' = None
 \<and> https_shape ''https://github.com/acme/widgets''
 \<and> parseGitRemoteUrl ''https://github.com/acme/widgets'' \<noteq> None"
proof -
  have "search https_pattern ''ftp://example.org/acme/widgets.git'' 0 = None"
    by code_simp
  then have h: "\<not> ends_in_https_form ''ftp://example.org/acme/widgets.git''"
    by (simp add: search_https)
  have "search ssh_pattern ''ftp://example.org/acme/widgets.git'' 0 = None"
    by code_simp
  then have s: "\<not> ends_in_ssh_form ''ftp://example.org/acme/widgets.git''"
    by (simp add: search_ssh)
  have "''acme/widgets'' = ''acme'' @ ''/'' @ ''widgets'' @ [] \<and> ''acme'' \<noteq> [] \<and>
        CHR ''/'' \<notin> set ''acme'' \<and> ''widgets'' \<noteq> [] \<and> CHR ''/'' \<notin> set ''widgets''"
    by simp
  then have "owner_repo_shape ''acme/widgets''"
    unfolding owner_repo_shape_def by blast
  then have d: "https_shape ''https://github.com/acme/widgets''"
    unfolding https_shape_def by simp
  show ?thesis
    using C9_parseGitRemoteUrl [of "''ftp://example.org/acme/widgets.git''"]
      C9_parseGitRemoteUrl [of "''https://github.com/acme/widgets''"] h s d
    by blast
qed

section \<open>list-tasks and list-specs: the scope of the client around the call\<close>

text \<open>A round trip adds one call to the trace and leaves the client as it was.\<close>

lemma request_world:
  "snd (request fetch m p bd w) = w\<lparr>trace := trace w @ [Fetch (make_call (client w) m p bd)]\<rparr>"
  by (simp add: request_def Let_def split: fetch_result.splits json.splits record_reading.splits)

lemma listTasks_client:
  "client (snd (listTasks b filters w)) = client w"
  by (simp add: listTasks_def Let_def request_world split: option.splits)

lemma listSpecs_client:
  "client (snd (listSpecs b w)) = client w"
  by (simp add: listSpecs_def request_world split: option.splits)

lemma handleListTasks_explicit:
  fixes b :: backend and w :: world
  assumes "tasks_projectId input = Some B" "B \<noteq> []"
  defines "call \<equiv> listTasks b (Some \<lparr>filter_status = Some (tasks_status input),
                                     filter_specId = tasks_specId input\<rparr>) (setProjectId B w)"
  shows "handleListTasks b fs input w =
     (case fst call of
        Inl e \<Rightarrow> (Inl e, if truthy (getProjectId w) then (snd call)\<lparr>client := client w\<rparr> else snd call)
      | Inr tasks \<Rightarrow>
         (Inr (tasks_text input None False tasks),
          setProjectId (or_else (getProjectId w) []) (snd call)))"
  using assms(1,2) listTasks_client [of b "Some \<lparr>filter_status = Some (tasks_status input),
                                     filter_specId = tasks_specId input\<rparr>" "setProjectId B w"]
  unfolding call_def
  by (auto simp add: handleListTasks_def truthy_def Let_def getProjectId_def setProjectId_def or_else_def
      split: prod.splits sum.splits option.splits)

lemma handleListSpecs_explicit:
  fixes b :: backend and w :: world
  assumes "specs_projectId input = Some B" "B \<noteq> []"
  defines "call \<equiv> listSpecs b (setProjectId B w)"
  shows "handleListSpecs b fs input w =
     (case fst call of
        Inl e \<Rightarrow> (Inl e, if truthy (getProjectId w) then (snd call)\<lparr>client := client w\<rparr> else snd call)
      | Inr specs \<Rightarrow>
         (Inr (specs_text input None False specs),
          setProjectId (or_else (getProjectId w) []) (snd call)))"
  using assms(1,2) listSpecs_client [of b "setProjectId B w"]
  unfolding call_def
  by (auto simp add: handleListSpecs_def truthy_def Let_def getProjectId_def setProjectId_def or_else_def
      split: prod.splits sum.splits option.splits)

text \<open>
  Claim C1, as stated, at a client whose scope is unset and an explicit project B. When the
  backend answers 500 the error is thrown and the scope is left at B; when the backend answers
  with an empty list the scope is left at the empty string. In neither case is the scope unset
  again afterward.
\<close>

theorem C1_counterexample:
  "getProjectId example_world = None
 \<and> fst (handleListTasks failing_backend no_files list_tasks_B example_world)
       = Inl (MCPServerError ''HTTP 500'' API_ERROR (Some 500))
 \<and> getProjectId (snd (handleListTasks failing_backend no_files list_tasks_B example_world))
       = Some project_B
 \<and> fst (handleListSpecs failing_backend no_files list_specs_B example_world)
       = Inl (MCPServerError ''HTTP 500'' API_ERROR (Some 500))
 \<and> getProjectId (snd (handleListSpecs failing_backend no_files list_specs_B example_world))
       = Some project_B
 \<and> fst (handleListTasks empty_backend no_files list_tasks_B example_world)
       = Inr ''No pending tasks found.''
 \<and> getProjectId (snd (handleListTasks empty_backend no_files list_tasks_B example_world))
       = Some []
 \<and> fst (handleListSpecs empty_backend no_files list_specs_B example_world)
       = Inr ''No specs found.''
 \<and> getProjectId (snd (handleListSpecs empty_backend no_files list_specs_B example_world))
       = Some []"
  by (simp add: handleListTasks_explicit [where B = project_B]
        handleListSpecs_explicit [where B = project_B]
        list_tasks_B_def list_specs_B_def project_B_def example_world_def example_client_def
        failing_backend_def empty_backend_def offline_def reply_with_def
        listTasks_def listSpecs_def request_def Let_def ok_def empty_object_def or_else_def
        getProjectId_def setProjectId_def truthy_def show_nat.simps digit_def
        tasks_text_def specs_text_def)

text \<open>
  Claim C1, amended. For list-tasks and list-specs with an explicit project id \<open>B\<close>: the one
  backend call is the call that \<open>listTasks\<close> (\<open>listSpecs\<close>) makes under the scope \<open>B\<close>, and its
  failure is thrown on; when the scope before the call is a non-empty project id, the client is
  afterward what it was before, on the success path and on every failure path; when the scope
  before the call is unset or empty, a successful call leaves the scope at the empty string.
\<close>

theorem C1_scope_restored:
  fixes b :: backend and fs :: files and w :: world
  assumes "tasks_projectId ti = Some B" and "specs_projectId si = Some B" and "B \<noteq> []"
  defines "tasks_call \<equiv> listTasks b (Some \<lparr>filter_status = Some (tasks_status ti),
                                     filter_specId = tasks_specId ti\<rparr>) (setProjectId B w)"
  defines "specs_call \<equiv> listSpecs b (setProjectId B w)"
  shows
   "trace (snd (handleListTasks b fs ti w)) = trace (snd tasks_call)
  \<and> trace (snd (handleListSpecs b fs si w)) = trace (snd specs_call)
  \<and> (\<forall>e. fst tasks_call = Inl e \<longrightarrow> fst (handleListTasks b fs ti w) = Inl e)
  \<and> (\<forall>e. fst specs_call = Inl e \<longrightarrow> fst (handleListSpecs b fs si w) = Inl e)
  \<and> (truthy (getProjectId w) \<longrightarrow>
        client (snd (handleListTasks b fs ti w)) = client w \<and>
        client (snd (handleListSpecs b fs si w)) = client w)
  \<and> (\<not> truthy (getProjectId w) \<longrightarrow>
        (\<forall>tasks. fst tasks_call = Inr tasks \<longrightarrow>
           getProjectId (snd (handleListTasks b fs ti w)) = Some []) \<and>
        (\<forall>specs. fst specs_call = Inr specs \<longrightarrow>
           getProjectId (snd (handleListSpecs b fs si w)) = Some []))"
proof -
  have t: "client (snd tasks_call) = (client w)\<lparr>projectId := Some B\<rparr>"
    unfolding tasks_call_def by (simp add: listTasks_client setProjectId_def)
  have s: "client (snd specs_call) = (client w)\<lparr>projectId := Some B\<rparr>"
    unfolding specs_call_def by (simp add: listSpecs_client setProjectId_def)
  have ht: "handleListTasks b fs ti w =
     (case fst tasks_call of
        Inl e \<Rightarrow> (Inl e, if truthy (getProjectId w) then (snd tasks_call)\<lparr>client := client w\<rparr>
                        else snd tasks_call)
      | Inr tasks \<Rightarrow>
         (Inr (tasks_text ti None False tasks),
          setProjectId (or_else (getProjectId w) []) (snd tasks_call)))"
    unfolding tasks_call_def using assms(1,3) by (rule handleListTasks_explicit)
  have hs: "handleListSpecs b fs si w =
     (case fst specs_call of
        Inl e \<Rightarrow> (Inl e, if truthy (getProjectId w) then (snd specs_call)\<lparr>client := client w\<rparr>
                        else snd specs_call)
      | Inr specs \<Rightarrow>
         (Inr (specs_text si None False specs),
          setProjectId (or_else (getProjectId w) []) (snd specs_call)))"
    unfolding specs_call_def using assms(2,3) by (rule handleListSpecs_explicit)
  show ?thesis
    unfolding ht hs using t s
    by (auto simp: setProjectId_def getProjectId_def truthy_def or_else_def
          split: sum.splits option.splits)
qed

text \<open>C1 at a client scoped to project A (failing and answering backend) and at an unscoped
  client (answering backend).\<close>

theorem C1_scope_restored_witness:
  "client (snd (handleListTasks failing_backend no_files list_tasks_B world_A)) = client world_A
 \<and> client (snd (handleListSpecs failing_backend no_files list_specs_B world_A)) = client world_A
 \<and> client (snd (handleListTasks empty_backend no_files list_tasks_B world_A)) = client world_A
 \<and> getProjectId world_A = Some project_A
 \<and> getProjectId (snd (handleListTasks empty_backend no_files list_tasks_B example_world)) = Some []
 \<and> getProjectId (snd (handleListSpecs empty_backend no_files list_specs_B example_world)) = Some []"
proof -
  have i: "tasks_projectId list_tasks_B = Some project_B" "specs_projectId list_specs_B = Some project_B"
    "project_B \<noteq> []"
    by (simp_all add: list_tasks_B_def list_specs_B_def project_B_def)
  have a: "truthy (getProjectId world_A)" "getProjectId world_A = Some project_A"
    by (simp_all add: world_A_def setProjectId_def getProjectId_def truthy_def project_A_def)
  have u: "\<not> truthy (getProjectId example_world)"
    by (simp add: example_world_def example_client_def getProjectId_def truthy_def)
  have ok_tasks: "fst (listTasks empty_backend (Some \<lparr>filter_status = Some (tasks_status list_tasks_B),
        filter_specId = tasks_specId list_tasks_B\<rparr>) (setProjectId project_B example_world)) = Inr []"
    by (simp add: listTasks_def setProjectId_def project_B_def empty_backend_def reply_with_def
          request_def Let_def ok_def)
  have ok_specs: "fst (listSpecs empty_backend (setProjectId project_B example_world)) = Inr []"
    by (simp add: listSpecs_def setProjectId_def project_B_def empty_backend_def reply_with_def
          request_def Let_def ok_def)
  show ?thesis
    using C1_scope_restored [OF i, of failing_backend no_files world_A]
      C1_scope_restored [OF i, of empty_backend no_files world_A]
      C1_scope_restored [OF i, of empty_backend no_files example_world]
      a u ok_tasks ok_specs
    by simp
qed

text \<open>
  Neither the network nor the file system sees the scope of the client: a handler that starts
  with an empty scope instead of an unset one returns the same result, makes the same calls and
  ends in the same world, up to an empty scope in place of an unset one.
\<close>

lemma make_call_scope: "make_call (c\<lparr>projectId := x\<rparr>) m p bd = make_call c m p bd"
  by (simp add: make_call_def)

lemma request_scope:
  "request fetch m p bd (setProjectId x w) =
     (fst (request fetch m p bd w), setProjectId x (snd (request fetch m p bd w)))"
  by (simp add: request_def Let_def setProjectId_def make_call_scope
        split: fetch_result.splits json.splits record_reading.splits)

lemma getGitHubRepo_scope:
  "getGitHubRepoFromWorkingDir fs d (setProjectId x w) =
     (fst (getGitHubRepoFromWorkingDir fs d w), setProjectId x (snd (getGitHubRepoFromWorkingDir fs d w)))"
  by (simp add: getGitHubRepoFromWorkingDir_def getGitRemoteUrl_def Let_def setProjectId_def
        split: option.splits)

lemma getProjectByRepo_scope:
  "getProjectByRepo b r (setProjectId x w) =
     (fst (getProjectByRepo b r w), setProjectId x (snd (getProjectByRepo b r w)))"
  by (simp add: getProjectByRepo_def request_scope split: prod.splits sum.splits)

lemma getGitHubRepo_client: "client (snd (getGitHubRepoFromWorkingDir fs d w)) = client w"
  by (simp add: getGitHubRepoFromWorkingDir_def getGitRemoteUrl_def Let_def split: option.splits)

lemma getProjectByRepo_client: "client (snd (getProjectByRepo b r w)) = client w"
  using request_world [of "by_repo_reply b" "''GET''" "''/projects/by-repo?repo='' @ encodeURIComponent r" None w]
  by (auto simp add: getProjectByRepo_def split: prod.splits sum.splits)

lemma setProjectId_twice: "setProjectId p (setProjectId q w) = setProjectId p w"
  by (simp add: setProjectId_def)

lemma getProjectId_set: "getProjectId (setProjectId p w) = Some p"
  by (simp add: setProjectId_def getProjectId_def)

lemma handleListTasks_empty_scope:
  assumes "getProjectId w = None"
  shows "fst (handleListTasks b fs ti (setProjectId [] w)) = fst (handleListTasks b fs ti w)
       \<and> same_but_scope (snd (handleListTasks b fs ti (setProjectId [] w))) (snd (handleListTasks b fs ti w))"
proof -
  define D where "D = (\<lambda>w.
        (if \<not> truthy (tasks_projectId ti) \<and> truthy (tasks_workingDir ti) then
           (case getGitHubRepoFromWorkingDir fs (or_else (tasks_workingDir ti) []) w of
              (repoFullName, w1) \<Rightarrow>
                if truthy repoFullName then
                  (case getProjectByRepo b (or_else repoFullName []) w1 of
                     (Inl e, w2) \<Rightarrow> (Inl e, w2)
                   | (Inr None, w2) \<Rightarrow> (Inr (Inl (no_project_found (or_else repoFullName []))), w2)
                   | (Inr (Some project), w2) \<Rightarrow>
                       (Inr (Inr (Some (project_id project), Some (project_name project), True)), w2))
                else (Inr (Inl (could_not_detect (or_else (tasks_workingDir ti) []))), w1))
         else (Inr (Inr (tasks_projectId ti, None, False)), w)))"
  define K where "K = (\<lambda>r w'. case r of
        Inl e \<Rightarrow> (Inl e, w')
      | Inr (Inl text) \<Rightarrow> (Inr text, w')
      | Inr (Inr (projectId_0, projectName, detectedFromRepo)) \<Rightarrow>
          (let projectId_1 = (if \<not> truthy projectId_0 then getProjectId w' else projectId_0) in
           if \<not> truthy projectId_1 then (Inr no_project_specified, w')
           else
             (let originalProjectId = getProjectId w';
                  w1 = setProjectId (or_else projectId_1 []) w';
                  (result, w2) =
                    (case listTasks b (Some \<lparr>filter_status = Some (tasks_status ti),
                                               filter_specId = tasks_specId ti\<rparr>) w1 of
                       (Inl e, w2) \<Rightarrow> (Inl e, w2)
                     | (Inr tasks, w2) \<Rightarrow>
                         (Inr (tasks_text ti projectName detectedFromRepo tasks),
                          setProjectId (or_else originalProjectId []) w2))
              in (result,
                  if truthy originalProjectId
                  then setProjectId (or_else originalProjectId []) w2
                  else w2))))"
  have h: "handleListTasks b fs ti v = K (fst (D v)) (snd (D v))" for v
    unfolding handleListTasks_def D_def K_def
    by (simp only: split_beta)
  have d1: "D (setProjectId [] w) = (fst (D w), setProjectId [] (snd (D w)))"
    unfolding D_def
    by (simp add: getGitHubRepo_scope getProjectByRepo_scope split: prod.splits sum.splits option.splits)
  have d2: "getProjectId (snd (D w)) = None"
    using assms unfolding D_def getProjectId_def
    by (auto simp add: getGitHubRepo_client split: prod.splits sum.splits option.splits
          dest!: arg_cong [where f = "\<lambda>x. client (snd x)"] simp: getProjectByRepo_client)
  have k: "fst (K r (setProjectId [] v)) = fst (K r v) \<and>
           same_but_scope (snd (K r (setProjectId [] v))) (snd (K r v))"
    if "getProjectId v = None" for r v
    using that unfolding K_def
    by (auto simp add: setProjectId_twice getProjectId_set truthy_def or_else_def Let_def
          same_but_scope_def split: prod.splits option.splits sum.splits)
  show ?thesis
    unfolding h d1 using k [OF d2] by simp
qed

lemma handleListSpecs_empty_scope:
  assumes "getProjectId w = None"
  shows "fst (handleListSpecs b fs si (setProjectId [] w)) = fst (handleListSpecs b fs si w)
       \<and> same_but_scope (snd (handleListSpecs b fs si (setProjectId [] w))) (snd (handleListSpecs b fs si w))"
proof -
  define D where "D = (\<lambda>w.
        (if \<not> truthy (specs_projectId si) \<and> truthy (specs_workingDir si) then
           (case getGitHubRepoFromWorkingDir fs (or_else (specs_workingDir si) []) w of
              (repoFullName, w1) \<Rightarrow>
                if truthy repoFullName then
                  (case getProjectByRepo b (or_else repoFullName []) w1 of
                     (Inl e, w2) \<Rightarrow> (Inl e, w2)
                   | (Inr None, w2) \<Rightarrow> (Inr (Inl (no_project_found (or_else repoFullName []))), w2)
                   | (Inr (Some project), w2) \<Rightarrow>
                       (Inr (Inr (Some (project_id project), Some (project_name project), True)), w2))
                else (Inr (Inl (could_not_detect (or_else (specs_workingDir si) []))), w1))
         else (Inr (Inr (specs_projectId si, None, False)), w)))"
  define K where "K = (\<lambda>r w'. case r of
        Inl e \<Rightarrow> (Inl e, w')
      | Inr (Inl text) \<Rightarrow> (Inr text, w')
      | Inr (Inr (projectId_0, projectName, detectedFromRepo)) \<Rightarrow>
          (let projectId_1 = (if \<not> truthy projectId_0 then getProjectId w' else projectId_0) in
           if \<not> truthy projectId_1 then (Inr no_project_specified, w')
           else
             (let originalProjectId = getProjectId w';
                  w1 = setProjectId (or_else projectId_1 []) w';
                  (result, w2) =
                    (case listSpecs b w1 of
                       (Inl e, w2) \<Rightarrow> (Inl e, w2)
                     | (Inr specs, w2) \<Rightarrow>
                         (Inr (specs_text si projectName detectedFromRepo specs),
                          setProjectId (or_else originalProjectId []) w2))
              in (result,
                  if truthy originalProjectId
                  then setProjectId (or_else originalProjectId []) w2
                  else w2))))"
  have h: "handleListSpecs b fs si v = K (fst (D v)) (snd (D v))" for v
    unfolding handleListSpecs_def D_def K_def
    by (simp only: split_beta)
  have d1: "D (setProjectId [] w) = (fst (D w), setProjectId [] (snd (D w)))"
    unfolding D_def
    by (simp add: getGitHubRepo_scope getProjectByRepo_scope split: prod.splits sum.splits option.splits)
  have d2: "getProjectId (snd (D w)) = None"
    using assms unfolding D_def getProjectId_def
    by (auto simp add: getGitHubRepo_client split: prod.splits sum.splits option.splits
          dest!: arg_cong [where f = "\<lambda>x. client (snd x)"] simp: getProjectByRepo_client)
  have k: "fst (K r (setProjectId [] v)) = fst (K r v) \<and>
           same_but_scope (snd (K r (setProjectId [] v))) (snd (K r v))"
    if "getProjectId v = None" for r v
    using that unfolding K_def
    by (auto simp add: setProjectId_twice getProjectId_set truthy_def or_else_def Let_def
          same_but_scope_def split: prod.splits option.splits sum.splits)
  show ?thesis
    unfolding h d1 using k [OF d2] by simp
qed

text \<open>
  Claim C10. At a client whose scope is unset, a successful list-tasks or list-specs with an
  explicit project id leaves the scope at the empty string; and \<open>listTasks\<close> and \<open>listSpecs\<close>
  treat the empty string as they treat an unset scope: both fail with \<open>NOT_CONFIGURED\<close> and
  leave the world, and so the trace of network calls, as it was. The two handlers, whatever
  their input, return the same result from a client with an empty scope as from one with an
  unset scope, and end in worlds that differ at most in that way.
\<close>

theorem C10_unset_scope_becomes_empty:
  fixes b :: backend and fs :: files and w :: world
  assumes "tasks_projectId ti = Some B" and "specs_projectId si = Some B" and "B \<noteq> []"
    and "getProjectId w = None"
  shows
   "(\<forall>r. fst (handleListTasks b fs ti w) = Inr r \<longrightarrow>
        getProjectId (snd (handleListTasks b fs ti w)) = Some [])
  \<and> (\<forall>r. fst (handleListSpecs b fs si w) = Inr r \<longrightarrow>
        getProjectId (snd (handleListSpecs b fs si w)) = Some [])
  \<and> listTasks b filters (setProjectId [] w) = (Inl project_required, setProjectId [] w)
  \<and> listTasks b filters w = (Inl project_required, w)
  \<and> listSpecs b (setProjectId [] w) = (Inl project_required, setProjectId [] w)
  \<and> listSpecs b w = (Inl project_required, w)
  \<and> code_of project_required = Some NOT_CONFIGURED
  \<and> fst (handleListTasks b fs ti' (setProjectId [] w)) = fst (handleListTasks b fs ti' w)
  \<and> same_but_scope (snd (handleListTasks b fs ti' (setProjectId [] w)))
        (snd (handleListTasks b fs ti' w))
  \<and> fst (handleListSpecs b fs si' (setProjectId [] w)) = fst (handleListSpecs b fs si' w)
  \<and> same_but_scope (snd (handleListSpecs b fs si' (setProjectId [] w)))
        (snd (handleListSpecs b fs si' w))"
proof -
  have "getProjectId (snd (handleListTasks b fs ti w)) = Some []"
    if "fst (handleListTasks b fs ti w) = Inr r" for r
    using that assms(4)
    by (auto simp: handleListTasks_explicit [OF assms(1,3)] setProjectId_def getProjectId_def or_else_def
          split: sum.splits)
  moreover have "getProjectId (snd (handleListSpecs b fs si w)) = Some []"
    if "fst (handleListSpecs b fs si w) = Inr r" for r
    using that assms(4)
    by (auto simp: handleListSpecs_explicit [OF assms(2,3)] setProjectId_def getProjectId_def or_else_def
          split: sum.splits)
  moreover have "listTasks b filters (setProjectId [] w) = (Inl project_required, setProjectId [] w)"
    by (simp add: listTasks_def setProjectId_def)
  moreover have "listTasks b filters w = (Inl project_required, w)"
    using assms(4) by (simp add: listTasks_def getProjectId_def)
  moreover have "listSpecs b (setProjectId [] w) = (Inl project_required, setProjectId [] w)"
    by (simp add: listSpecs_def setProjectId_def)
  moreover have "listSpecs b w = (Inl project_required, w)"
    using assms(4) by (simp add: listSpecs_def getProjectId_def)
  moreover have "code_of project_required = Some NOT_CONFIGURED"
    by (simp add: project_required_def)
  moreover note handleListTasks_empty_scope [OF assms(4), of b fs ti']
    handleListSpecs_empty_scope [OF assms(4), of b fs si']
  ultimately show ?thesis by blast
qed

text \<open>C10 at the unscoped example client and a backend that answers with empty lists.\<close>

theorem C10_unset_scope_becomes_empty_witness:
  "getProjectId example_world = None
 \<and> getProjectId (snd (handleListTasks empty_backend no_files list_tasks_B example_world)) = Some []
 \<and> getProjectId (snd (handleListSpecs empty_backend no_files list_specs_B example_world)) = Some []
 \<and> listTasks empty_backend None (setProjectId [] example_world)
       = (Inl project_required, setProjectId [] example_world)
 \<and> listTasks empty_backend None example_world = (Inl project_required, example_world)
 \<and> listSpecs empty_backend (setProjectId [] example_world)
       = (Inl project_required, setProjectId [] example_world)
 \<and> listSpecs empty_backend example_world = (Inl project_required, example_world)"
proof -
  have i: "tasks_projectId list_tasks_B = Some project_B" "specs_projectId list_specs_B = Some project_B"
    "project_B \<noteq> []"
    by (simp_all add: list_tasks_B_def list_specs_B_def project_B_def)
  have u: "getProjectId example_world = None"
    by (simp add: example_world_def example_client_def getProjectId_def)
  have t: "fst (handleListTasks empty_backend no_files list_tasks_B example_world)
             = Inr ''No pending tasks found.''"
    by (simp add: handleListTasks_explicit [where B = project_B] i u
          list_tasks_B_def project_B_def example_world_def example_client_def
          empty_backend_def offline_def reply_with_def
          listTasks_def request_def Let_def ok_def or_else_def
          setProjectId_def truthy_def tasks_text_def)
  have s: "fst (handleListSpecs empty_backend no_files list_specs_B example_world)
             = Inr ''No specs found.''"
    by (simp add: handleListSpecs_explicit [where B = project_B] i u
          list_specs_B_def project_B_def example_world_def example_client_def
          empty_backend_def offline_def reply_with_def
          listSpecs_def request_def Let_def ok_def or_else_def
          setProjectId_def truthy_def specs_text_def)
  show ?thesis
    using C10_unset_scope_becomes_empty [OF i u, of empty_backend no_files None] t s u
    by simp
qed

section \<open>The dispatcher: validation failures and unknown tools\<close>

text \<open>
  Claim C3. When the schema of the named tool rejects the arguments, \<open>handleToolCall\<close> throws the
  \<^verbatim>\<open>ZodError\<close> and the world is what it was: no handler has run, the client is unchanged and
  the trace has no new network call or file read. The tool call answers with \<^verbatim>\<open>isError\<close> and the
  text \<^verbatim>\<open>Validation error:\<close> followed by one line for each issue, with its path and its reason.
\<close>

theorem C3_validation_blocks_dispatch:
  assumes "name = ''list-projects'' \<and> listProjectsSchema S args = Inl issues
         \<or> name = ''list-specs'' \<and> listSpecsSchema S args = Inl issues
         \<or> name = ''list-tasks'' \<and> listTasksSchema S args = Inl issues
         \<or> name = ''get-task'' \<and> getTaskSchema S args = Inl issues
         \<or> name = ''start-task'' \<and> startTaskSchema S args = Inl issues
         \<or> name = ''complete-task'' \<and> completeTaskSchema S args = Inl issues
         \<or> name = ''report-progress'' \<and> reportProgressSchema S args = Inl issues"
  shows "handleToolCall S b fs name args w = (Inl (ZodError issues), w)
       \<and> callTool S b fs name (Some args) w =
           (\<lparr>content_text = ''Validation error:'' @ newline @ join newline (map issue_line issues),
             isError = True\<rparr>, w)"
proof -
  have h: "parse_then parse handler args w = (Inl (ZodError issues), w)"
    if "parse args = Inl issues" for parse :: "'a args \<Rightarrow> zod_issue list + 'i" and handler
    using that by (simp add: parse_then_def)
  have "handleToolCall S b fs name args w = (Inl (ZodError issues), w)"
    using assms by (elim disjE conjE) (simp_all add: handleToolCall_def h)
  then show ?thesis
    by (simp add: callTool_def)
qed

text \<open>C3 at a list-tasks call whose arguments raise two issues.\<close>

theorem C3_validation_blocks_dispatch_witness:
  "callTool rejecting_schemas offline no_files ''list-tasks'' (Some []) world_A =
     (\<lparr>content_text = ''Validation error:'' @ newline @
         ''- projectId: Invalid uuid'' @ newline @ ''- status: Invalid enum value'',
       isError = True\<rparr>, world_A)"
proof -
  have "listTasksSchema rejecting_schemas [] =
          Inl [\<lparr>issue_path = [''projectId''], issue_message = ''Invalid uuid''\<rparr>,
               \<lparr>issue_path = [''status''], issue_message = ''Invalid enum value''\<rparr>]"
    by (simp add: rejecting_schemas_def)
  then show ?thesis
    using C3_validation_blocks_dispatch [of "''list-tasks''" rejecting_schemas "[]" _ offline no_files world_A]
    by (simp add: issue_line_def newline_def)
qed

text \<open>
  Claim C4, as stated, at the tool name \<^verbatim>\<open>frobnicate\<close>: what is thrown is a plain \<^verbatim>\<open>Error\<close>, which
  carries no error code, and the text of the answer does not start with the tag
  \<^verbatim>\<open>Error [\<close> that a failure with a kind gets.
\<close>

theorem C4_counterexample:
  "fst (handleToolCall rejecting_schemas offline no_files ''frobnicate'' [] world_A)
     = Inl (Error ''Unknown tool: frobnicate'')
 \<and> code_of (Error ''Unknown tool: frobnicate'') = None
 \<and> content_text (fst (callTool rejecting_schemas offline no_files ''frobnicate'' (Some []) world_A))
     = ''Error: Unknown tool: frobnicate''
 \<and> take 7 (content_text (fst (callTool rejecting_schemas offline no_files ''frobnicate'' (Some []) world_A)))
     \<noteq> ''Error [''"
  by (simp add: handleToolCall_def callTool_def)

text \<open>
  Claim C4, amended. For a tool name that is not one of the seven registered names the dispatch
  fails with a plain \<^verbatim>\<open>Error\<close> whose message is \<^verbatim>\<open>Unknown tool:\<close> and the name; the tool call
  answers with \<^verbatim>\<open>isError\<close> and the text \<^verbatim>\<open>Error: Unknown tool:\<close> and the name, and the world is
  what it was: no handler has run and no backend call was made.
\<close>

theorem C4_unknown_tool:
  assumes "name \<notin> set toolDefinitions"
  shows "handleToolCall S b fs name args w = (Inl (Error (''Unknown tool: '' @ name)), w)
       \<and> callTool S b fs name arguments w =
           (\<lparr>content_text = ''Error: Unknown tool: '' @ name, isError = True\<rparr>, w)"
proof -
  have "handleToolCall S b fs name a w = (Inl (Error (''Unknown tool: '' @ name)), w)" for a
    using assms by (simp add: handleToolCall_def toolDefinitions_def)
  then show ?thesis
    by (simp add: callTool_def)
qed

text \<open>C4 at the tool name \<^verbatim>\<open>frobnicate\<close>.\<close>

theorem C4_unknown_tool_witness:
  "''frobnicate'' \<notin> set toolDefinitions
 \<and> callTool rejecting_schemas offline no_files ''frobnicate'' None world_A =
      (\<lparr>content_text = ''Error: Unknown tool: frobnicate'', isError = True\<rparr>, world_A)"
proof -
  have n: "''frobnicate'' \<notin> set toolDefinitions"
    by (simp add: toolDefinitions_def)
  show ?thesis
    using C4_unknown_tool [OF n, of rejecting_schemas offline no_files "[]" world_A None] n
    by simp
qed

section \<open>The HTTP transport: credentials and the session map\<close>

text \<open>
  Claim C2. A POST to the message endpoint whose \<^verbatim>\<open>Authorization\<close> header is absent or not of
  the \<^verbatim>\<open>Bearer\<close> form and whose \<^verbatim>\<open>X-API-Key\<close> header is not a string is answered with status 401
  at once, whatever the protocol library would have done with the message: the state of the
  server is what it was, so no session and no object was created, the session map has no new
  entry, and no tool call or backend call was made.
\<close>

theorem C2_missing_credentials_rejected:
  assumes "\<forall>a. authorization req = Some a \<longrightarrow> \<not> startsWith a ''Bearer ''"
    and "\<forall>k. x_api_key req \<noteq> Single k"
  shows "post_mcp S b fs req sdk st = (unauthorized, st)
       \<and> (\<exists>body. unauthorized = Json_response 401 body)"
proof -
  have "extractApiKey req = None"
    using assms by (auto simp: extractApiKey_def Let_def split: option.splits header_value.splits)
  then show ?thesis
    by (simp add: post_mcp_def truthy_def unauthorized_def)
qed

text \<open>C2 at a request with a \<^verbatim>\<open>Basic\<close> authorization header and a library that would have
  initialised a session and dispatched a tool call.\<close>

theorem C2_missing_credentials_rejected_witness:
  "post_mcp rejecting_schemas offline no_files request_without_key
     ([Session_initialized session_1, Tool_call ''list-projects'' None], Responds 200) fresh_server
   = (unauthorized, fresh_server)"
proof -
  have 1: "\<forall>a. authorization request_without_key = Some a \<longrightarrow> \<not> startsWith a ''Bearer ''"
    by (simp add: request_without_key_def startsWith_def)
  have 2: "\<forall>k. x_api_key request_without_key \<noteq> Single k"
    by (simp add: request_without_key_def)
  show ?thesis
    using C2_missing_credentials_rejected [OF 1 2] by blast
qed

text \<open>
  Claim C5. Right after \<^verbatim>\<open>onsessioninitialized\<close> the session map holds, under the new identifier,
  the session data it was called with. For a POST with a key and no registered session, during
  which the transport initialises the session \<open>sid\<close>: afterward the map holds under \<open>sid\<close> the
  session data with the three objects created for this request (the API client with the key of
  the request, the server instance, the transport with this session identifier); and a DELETE
  with that identifier is answered with status 204 and leaves no entry under \<open>sid\<close>.
\<close>

theorem C5_session_lookup_and_destroy:
  fixes st :: MCPServer and req del :: Request and S :: "'u schemas" and b :: backend and fs :: files
    and sid :: string
  assumes "truthy (extractApiKey req)"
    and "\<forall>x. mcp_session_id req = Some x \<longrightarrow> sessions st x = None"
    and "mcp_session_id del = Some sid"
  defines "created \<equiv> \<lparr>transport = allocated st + 2, apiClient = allocated st, server = allocated st + 1\<rparr>"
  defines "st1 \<equiv> snd (post_mcp S b fs req ([Session_initialized sid], Responds 200) st)"
  shows "sessions (onsessioninitialized sessionData newSessionId st) newSessionId = Some sessionData
       \<and> sessions st1 sid = Some created
       \<and> apiClients st1 (apiClient created) =
            Some \<lparr>apiUrl = defaultApiUrl st, apiKey = or_else (extractApiKey req) [], projectId = None\<rparr>
       \<and> transport_sessionId st1 (transport created) = Some sid
       \<and> fst (delete_mcp del st1) = Empty_response 204
       \<and> sessions (snd (delete_mcp del st1)) sid = None"
proof -
  have new: "(case (if truthy (mcp_session_id req)
                     then sessions st (or_else (mcp_session_id req) []) else None) of
                 Some sessionData \<Rightarrow> (sessionData, st)
               | None \<Rightarrow> new_session (or_else (extractApiKey req) []) st)
             = new_session (or_else (extractApiKey req) []) st"
    using assms(2) by (auto simp: truthy_def or_else_def split: option.splits)
  have st1: "st1 = onsessioninitialized created sid
                (st\<lparr>apiClients := (apiClients st)
                      (allocated st \<mapsto> \<lparr>apiUrl = defaultApiUrl st,
                          apiKey = or_else (extractApiKey req) [], projectId = None\<rparr>),
                    allocated := allocated st + 3,
                    transport_sessionId := (transport_sessionId st)(allocated st + 2 \<mapsto> sid)\<rparr>)"
    unfolding st1_def post_mcp_def new
    using assms(1) by (simp add: new_session_def Let_def created_def new_TaskApiClient_def)
  have a: "sessions (onsessioninitialized sessionData newSessionId st) newSessionId = Some sessionData"
    by (simp add: onsessioninitialized_def)
  have b: "sessions st1 sid = Some created"
    by (simp add: st1 onsessioninitialized_def)
  have c: "apiClients st1 (apiClient created) =
            Some \<lparr>apiUrl = defaultApiUrl st, apiKey = or_else (extractApiKey req) [], projectId = None\<rparr>"
    by (simp add: st1 onsessioninitialized_def created_def)
  have d: "transport_sessionId st1 (transport created) = Some sid"
    by (simp add: st1 onsessioninitialized_def created_def)
  have e: "fst (delete_mcp del st1) = Empty_response 204"
    by (simp add: delete_mcp_def assms(3) Let_def split: option.splits)
  have f: "sessions (snd (delete_mcp del st1)) sid = None"
    by (simp add: delete_mcp_def assms(3) Let_def split: option.splits)
  from a b c d e f show ?thesis by blast
qed

text \<open>C5 at the first request of a server: the three new objects are 0, 1 and 2.\<close>

theorem C5_session_lookup_and_destroy_witness:
  "sessions (snd (post_mcp rejecting_schemas offline no_files request_with_key
       ([Session_initialized session_1], Responds 200) fresh_server)) session_1
     = Some \<lparr>transport = 2, apiClient = 0, server = 1\<rparr>
 \<and> sessions (snd (delete_mcp delete_session_1
       (snd (post_mcp rejecting_schemas offline no_files request_with_key
          ([Session_initialized session_1], Responds 200) fresh_server)))) session_1 = None"
proof -
  have 1: "truthy (extractApiKey request_with_key)"
    by (simp add: extractApiKey_def request_with_key_def startsWith_def truthy_def)
  have 2: "\<forall>x. mcp_session_id request_with_key = Some x \<longrightarrow> sessions fresh_server x = None"
    by (simp add: request_with_key_def)
  have 3: "mcp_session_id delete_session_1 = Some session_1"
    by (simp add: delete_session_1_def)
  show ?thesis
    using C5_session_lookup_and_destroy [OF 1 2 3, where S = rejecting_schemas and b = offline and fs = no_files]
    by (simp add: fresh_server_def)
qed

text \<open>
  Claim C6. A DELETE for a session identifier that the map does not hold (or with no identifier
  at all) changes nothing and is answered with status 204; every DELETE is answered with status
  204; and a second DELETE for the same identifier changes nothing and is answered with status
  204 again.
\<close>

theorem C6_destroy_idempotent:
  "((case mcp_session_id req of None \<Rightarrow> True | Some sid \<Rightarrow> sessions st sid = None)
      \<longrightarrow> delete_mcp req st = (Empty_response 204, st))
 \<and> fst (delete_mcp req st) = Empty_response 204
 \<and> delete_mcp req (snd (delete_mcp req st)) = (Empty_response 204, snd (delete_mcp req st))"
proof -
  have absent: "delete_mcp r s = (Empty_response 204, s)"
    if "case mcp_session_id r of None \<Rightarrow> True | Some sid \<Rightarrow> sessions s sid = None" for r s
    using that by (simp add: delete_mcp_def split: option.splits)
  have first: "fst (delete_mcp req st) = Empty_response 204"
    by (simp add: delete_mcp_def Let_def split: option.splits)
  have "case mcp_session_id req of None \<Rightarrow> True
        | Some sid \<Rightarrow> sessions (snd (delete_mcp req st)) sid = None"
    by (simp add: delete_mcp_def Let_def split: option.splits)
  then have "delete_mcp req (snd (delete_mcp req st)) = (Empty_response 204, snd (delete_mcp req st))"
    by (rule absent)
  with absent [where r = req and s = st] first show ?thesis by blast
qed

text \<open>C6 at a server with no session, and at two DELETEs after a session was created.\<close>

theorem C6_destroy_idempotent_witness:
  "delete_mcp delete_session_1 fresh_server = (Empty_response 204, fresh_server)
 \<and> delete_mcp delete_session_1 (snd (delete_mcp delete_session_1
       (snd (post_mcp rejecting_schemas offline no_files request_with_key
          ([Session_initialized session_1], Responds 200) fresh_server))))
   = (Empty_response 204, snd (delete_mcp delete_session_1
       (snd (post_mcp rejecting_schemas offline no_files request_with_key
          ([Session_initialized session_1], Responds 200) fresh_server))))"
proof -
  have "case mcp_session_id delete_session_1 of None \<Rightarrow> True
        | Some sid \<Rightarrow> sessions fresh_server sid = None"
    by (simp add: delete_session_1_def fresh_server_def)
  then show ?thesis
    using C6_destroy_idempotent [where req = delete_session_1 and st = fresh_server]
      C6_destroy_idempotent [where req = delete_session_1 and st =
        "snd (post_mcp rejecting_schemas offline no_files request_with_key
          ([Session_initialized session_1], Responds 200) fresh_server)"]
    by blast
qed

end
